theory Spec2Isabelle
  imports Main
begin

section \<open>The webhook relay handler of src/api/webhook.ts\<close>

text \<open>
  The file holds one request handler. It is embedded as a pure function from the
  outside world (the process environment, the payload schema, the Linear API and the
  outcome of the outbound \<open>fetch\<close>) and a request to the list of outbound calls the
  handler made, in order, together with the response it sent.

  Strings are \<open>string\<close>; every character the code inspects (\<open>/\<close>, \<open>#\<close>) is ASCII.
  A JavaScript value that may be \<open>undefined\<close> or \<open>null\<close> is an \<open>option\<close>.
  Record fields keep the source's names, with a prefix where two objects of the source
  share a field name (\<open>name\<close>, \<open>id\<close>, \<open>url\<close>, \<open>body\<close>).
\<close>

subsection \<open>Module constants\<close>

definition DISCORD_WEBHOOKS_URL :: string where
  "DISCORD_WEBHOOKS_URL = ''https://discord.com/api/webhooks''"

definition WEBHOOK_USERNAME :: string where
  "WEBHOOK_USERNAME = ''Linear''"

definition WEBHOOK_AVATAR_URL :: string where
  "WEBHOOK_AVATAR_URL = ''https://ldw.screfy.com/static/linear.png''"

definition LINEAR_BASE_URL :: string where
  "LINEAR_BASE_URL = ''https://linear.app''"

definition LINEAR_COLOR :: string where
  "LINEAR_COLOR = ''#5E6AD2''"

text \<open>The members of \<open>z.enum([...])\<close>.\<close>

definition LINEAR_TRUSTED_IPS :: "string list" where
  "LINEAR_TRUSTED_IPS = [''35.231.147.226'', ''35.243.134.228'']"

text \<open>
  The own properties of the object literal \<open>LINEAR_DISPLAY_NAME_TO_DISCORD_ID\<close>,
  in the order of the source.
\<close>

definition LINEAR_DISPLAY_NAME_TO_DISCORD_ID :: "(string \<times> string) list" where
  "LINEAR_DISPLAY_NAME_TO_DISCORD_ID =
     [(''kong'', ''152805815097491456''),
      (''kyo.production99'', ''946380955088732160''),
      (''james.lee'', ''289070271523061761''),
      (''aki'', ''181394763683987457''),
      (''junxiong.low'', ''611578492026486808'')]"

text \<open>
  The characters that open the template literal of the \<open>content\<close> field, before
  \<open> <@\<close>: the ten bytes the source file holds there (a waving-hand sign).
\<close>

definition MENTION_GREETING :: string where
  "MENTION_GREETING =
     [CHR 0xC3, CHR 0xB0, CHR 0xC5, CHR 0xB8, CHR 0xE2, CHR 0x80, CHR 0x98,
      CHR 0xE2, CHR 0x80, CHR 0xB9]"

subsection \<open>Errors and responses\<close>

text \<open>One issue of a \<open>ZodError\<close>: an \<open>invalid_type\<close> issue of zod 3.\<close>

record ZodIssue =
  issue_code :: string
  expected :: string
  received :: string
  issue_path :: "string list"
  issue_message :: string

text \<open>
  Modelled from the spec: the class \<open>HttpError\<close> of \<open>../lib/HttpError\<close> is not among
  the sources. It is the error of the spec's taxonomy that carries its HTTP status (405,
  403) with a message, built as \<open>new HttpError(message, statusCode)\<close> and read back by
  the \<open>catch\<close> block as \<open>e.message\<close> and \<open>e.statusCode\<close>.

  The other constructors are what else the \<open>try\<close> block can throw: a \<open>ZodError\<close>
  with its issues, which the \<open>catch\<close> block tells apart; and, instances of neither
  class, a \<open>TypeError\<close> of the runtime, the error of \<open>new LinearClient\<close>, an error
  of a discord.js embed setter, and a rejection of the Linear SDK or of \<open>fetch\<close>.
\<close>

datatype exn =
    HttpError string nat
  | ZodError "ZodIssue list"
  | TypeError
  | ClientError
  | EmbedError
  | LinearFailure
  | FetchFailure

text \<open>The \<open>error\<close> member of the JSON envelope: \<open>null\<close>, a string or a list of issues.\<close>

datatype error_body =
    ErrorNull
  | ErrorString string
  | ErrorIssues "ZodIssue list"

text \<open>
  What \<open>res.status(c).send(envelope)\<close> sends; \<open>res.send\<close> alone leaves the status
  at the platform's default, 200.
\<close>

record response =
  statusCode :: nat
  success :: bool
  message :: "string option"
  error :: error_body

text \<open>The \<open>catch\<close> block of \<open>handler\<close>.\<close>

definition catch_block :: "exn \<Rightarrow> response" where
  "catch_block e =
     (case e of
        HttpError m c \<Rightarrow>
          \<lparr>statusCode = c, success = False, message = None, error = ErrorString m\<rparr>
      | ZodError issues \<Rightarrow>
          \<lparr>statusCode = 400, success = False, message = None, error = ErrorIssues issues\<rparr>
      | _ \<Rightarrow>
          \<lparr>statusCode = 500, success = False, message = None,
           error = ErrorString ''Something went wrong.''\<rparr>)"

subsection \<open>The request\<close>

text \<open>A header of Node is a string or an array of strings, when it is there.\<close>

datatype header_value = HeaderString string | HeaderArray "string list"

text \<open>A member of \<open>VercelRequestQuery\<close>: a string or an array of strings.\<close>

datatype query_value = QueryString string | QueryArray "string list"

text \<open>
  The members of the request the handler reads: \<open>req.method\<close>,
  \<open>req.headers['x-vercel-forwarded-for']\<close>, \<open>req.query\<close> and \<open>req.body\<close>
  (the parsed JSON, of a type \<open>'j\<close> left open).
\<close>

record 'j VercelRequest =
  req_method :: "string option"
  x_vercel_forwarded_for :: "header_value option"
  req_query :: "string \<rightharpoonup> query_value"
  req_body :: 'j

text \<open>\<open>Array.prototype.join\<close> with a one-character separator.\<close>

fun join :: "char \<Rightarrow> string list \<Rightarrow> string" where
  "join sep [] = []"
| "join sep [s] = s"
| "join sep (s # t # ss) = s @ sep # join sep (t # ss)"

text \<open>A header inside a template literal: an array prints as its members joined by commas.\<close>

fun header_to_string :: "header_value \<Rightarrow> string" where
  "header_to_string (HeaderString s) = s"
| "header_to_string (HeaderArray ss) = join (CHR '','') ss"

text \<open>\<open>LINEAR_TRUSTED_IPS.safeParse(forwardedFor).success\<close>: a string of the enum.\<close>

fun trusted_ip :: "header_value \<Rightarrow> bool" where
  "trusted_ip (HeaderString s) = (s \<in> set LINEAR_TRUSTED_IPS)"
| "trusted_ip (HeaderArray ss) = False"

subsection \<open>The query schema\<close>

text \<open>
  \<open>z.string()\<close> at the key \<open>k\<close> of the query: no issue for a string, one
  \<open>invalid_type\<close> issue for an array or a missing member.
\<close>

definition invalid_type :: "string \<Rightarrow> string \<Rightarrow> string \<Rightarrow> ZodIssue" where
  "invalid_type k got msg =
     \<lparr>issue_code = ''invalid_type'', expected = ''string'', received = got,
      issue_path = [k], issue_message = msg\<rparr>"

fun z_string :: "string \<Rightarrow> query_value option \<Rightarrow> ZodIssue list" where
  "z_string k (Some (QueryString s)) = []"
| "z_string k (Some (QueryArray ss)) =
     [invalid_type k ''array'' ''Expected string, received array'']"
| "z_string k None = [invalid_type k ''undefined'' ''Required'']"

record credentials =
  webhookId :: string
  webhookToken :: string
  linearToken :: string

text \<open>
  \<open>QUERY_SCHEMA.parse(req.query)\<close>: the three members are checked in the order of
  the schema and every issue is collected; any issue throws a \<open>ZodError\<close>.
\<close>

definition QUERY_SCHEMA_parse :: "(string \<rightharpoonup> query_value) \<Rightarrow> exn + credentials" where
  "QUERY_SCHEMA_parse q =
     (case (q ''webhookId'', q ''webhookToken'', q ''linearToken'') of
        (Some (QueryString a), Some (QueryString b), Some (QueryString c)) \<Rightarrow>
          Inr \<lparr>webhookId = a, webhookToken = b, linearToken = c\<rparr>
      | _ \<Rightarrow>
          Inl (ZodError (z_string ''webhookId'' (q ''webhookId'')
                         @ z_string ''webhookToken'' (q ''webhookToken'')
                         @ z_string ''linearToken'' (q ''linearToken''))))"

subsection \<open>The payload, as \<open>SCHEMA\<close> types it\<close>

text \<open>
  Modelled from the spec: \<open>SCHEMA\<close>, \<open>Model\<close> and \<open>Action\<close> of \<open>../lib/schema\<close> are
  not among the sources. The types below are the typed event of the spec's payload
  validator, with the fields the handler reads. The handler names
  \<open>Model.ISSUE\<close>, \<open>Model.COMMENT\<close>, \<open>Action.CREATE\<close> and \<open>Action.UPDATE\<close>; every
  other member of \<open>Action\<close> is \<open>OTHER_ACTION\<close>, and a payload of any other model is
  \<open>OtherData\<close>. The fields are the ones the handler reads; what the schema accepts is
  left to \<open>SCHEMA_safeParse\<close> below.
\<close>

datatype Action = CREATE | UPDATE | OTHER_ACTION

record team_ref =
  team_key :: string
  team_name :: string

record state_ref =
  state_name :: string
  state_color :: string

record assignee_ref =
  assignee_id :: string

record issue_data =
  creatorId :: string
  title :: string
  team :: team_ref
  state :: state_ref
  assignee :: "assignee_ref option"
  description :: "string option"

record issue_ref =
  issue_id :: string
  issue_title :: string

record comment_data =
  userId :: string
  issue :: issue_ref
  comment_body :: string

record updated_from =
  stateId :: "string option"

text \<open>
  \<open>body.type\<close> with \<open>body.data\<close> (and \<open>body.updatedFrom\<close> of an issue): the
  discriminated union.
\<close>

datatype event_data =
    IssueData issue_data "updated_from option"
  | CommentData comment_data
  | OtherData

record event_body =
  action :: Action
  createdAt :: string
  url :: string
  payload :: event_data

subsection \<open>The embed and the outbound message\<close>

text \<open>
  \<open>embed.toJSON()\<close> of a \<open>MessageEmbed\<close> of discord.js, as far as the handler sets
  it. The colour is the integer the library resolves a colour to. The timestamp is what
  the library posts for \<open>new Date(createdAt)\<close>: the ISO string of a valid date,
  \<open>null\<close> for an invalid one, and the number 0 for the epoch itself.
\<close>

datatype posted_time = NullTime | ZeroTime | IsoTime string

record EmbedField =
  field_name :: string
  field_text :: string
  field_inline :: bool

record EmbedFooter =
  footer_text :: string
  footer_iconURL :: "string option"

record MessageEmbed =
  embed_color :: nat
  embed_timestamp :: posted_time
  embed_title :: "string option"
  embed_url :: "string option"
  embed_author :: "string option"
  embed_footer :: "EmbedFooter option"
  embed_fields :: "EmbedField list"
  embed_description :: "string option"

text \<open>The JSON body of the outbound \<open>fetch\<close>; an \<open>undefined\<close> content is left out.\<close>

record discord_payload =
  content :: "string option"
  username :: string
  avatar_url :: string
  embeds :: "MessageEmbed list"

subsection \<open>The Linear API and the outside world\<close>

record User =
  user_id :: string
  user_name :: string
  displayName :: string
  user_url :: string
  avatarUrl :: "string option"

text \<open>What awaiting a promise gives: it rejects (the \<open>await\<close> throws) or resolves.\<close>

datatype 'a awaited = Rejects | Resolves 'a

text \<open>
  An issue of the SDK: \<open>linearIssue.assignee\<close> is \<open>undefined\<close> or a promise of the
  user. The handler reads it once as a condition and once to await it; the awaited read
  is the one recorded.
\<close>

record LinearIssue =
  issue_assignee :: "User awaited option"

text \<open>
  The world outside the handler: \<open>process.env.NODE_ENV\<close>; \<open>SCHEMA.safeParse\<close>
  (\<open>None\<close> when \<open>success\<close> is false); \<open>linear.user(id)\<close> and \<open>linear.issue(id)\<close>
  of a client built with an API key; whether \<open>fetch\<close> of a URL with a JSON body
  resolves; and two pieces of discord.js and the runtime that are not modelled further:
  the integer a colour other than \<open>#\<close> with up to six hexadecimal digits resolves to
  (\<open>None\<close> when the library throws), and what is posted for the date a string
  parses to.
\<close>

record 'j world =
  NODE_ENV :: "string option"
  SCHEMA_safeParse :: "'j \<Rightarrow> event_body option"
  linear_user :: "string \<Rightarrow> string \<Rightarrow> User awaited"
  linear_issue :: "string \<Rightarrow> string \<Rightarrow> LinearIssue awaited"
  fetch_resolves :: "string \<Rightarrow> discord_payload \<Rightarrow> bool"
  resolve_other_color :: "string \<Rightarrow> nat option"
  posted_timestamp :: "string \<Rightarrow> posted_time"

subsection \<open>The library calls that can throw\<close>

text \<open>
  \<open>new LinearClient({apiKey})\<close> throws when it is given neither an API key nor an
  access token, that is for the empty string; the client is stood for by its key.
\<close>

definition new_LinearClient :: "string \<Rightarrow> exn + string" where
  "new_LinearClient apiKey = (if apiKey = [] then Inl ClientError else Inr apiKey)"

text \<open>
  \<open>parseInt(digits, 16)\<close> on a string of hexadecimal digits only (\<open>None\<close> when
  another character stands in it).
\<close>

definition HEX_DIGITS :: "(char \<times> nat) list" where
  "HEX_DIGITS =
     [(CHR ''0'', 0), (CHR ''1'', 1), (CHR ''2'', 2), (CHR ''3'', 3), (CHR ''4'', 4),
      (CHR ''5'', 5), (CHR ''6'', 6), (CHR ''7'', 7), (CHR ''8'', 8), (CHR ''9'', 9),
      (CHR ''a'', 10), (CHR ''b'', 11), (CHR ''c'', 12), (CHR ''d'', 13), (CHR ''e'', 14),
      (CHR ''f'', 15), (CHR ''A'', 10), (CHR ''B'', 11), (CHR ''C'', 12), (CHR ''D'', 13),
      (CHR ''E'', 14), (CHR ''F'', 15)]"

fun hex_number :: "nat \<Rightarrow> string \<Rightarrow> nat option" where
  "hex_number acc [] = Some acc"
| "hex_number acc (c # cs) =
     (case map_of HEX_DIGITS c of
        None \<Rightarrow> None
      | Some d \<Rightarrow> hex_number (16 * acc + d) cs)"

text \<open>
  \<open>Util.resolveColor\<close> on a string: \<open>#\<close> and one to six hexadecimal digits is no
  named colour and parses to a number within range; every other string is left to the
  world, and an unresolvable one throws.
\<close>

definition resolveColor :: "'j world \<Rightarrow> string \<Rightarrow> exn + nat" where
  "resolveColor env c =
     (let other = (case resolve_other_color env c of
                     None \<Rightarrow> Inl EmbedError
                   | Some n \<Rightarrow> Inr n)
      in case c of
           [] \<Rightarrow> other
         | h # digits \<Rightarrow>
             if h = CHR ''#'' \<and> digits \<noteq> [] \<and> length digits \<le> 6
             then (case hex_number 0 digits of None \<Rightarrow> other | Some n \<Rightarrow> Inr n)
             else other)"

text \<open>\<open>embed.setColor(c)\<close>.\<close>

definition setColor :: "'j world \<Rightarrow> string \<Rightarrow> MessageEmbed \<Rightarrow> exn + MessageEmbed" where
  "setColor env c emb =
     (case resolveColor env c of
        Inl e \<Rightarrow> Inl e
      | Inr n \<Rightarrow> Inr (emb\<lparr>embed_color := n\<rparr>))"

text \<open>
  \<open>embed.addFields(...)\<close>: every field is checked first, and an empty name or an
  empty value throws; otherwise the fields are appended.
\<close>

definition addFields :: "EmbedField list \<Rightarrow> MessageEmbed \<Rightarrow> exn + MessageEmbed" where
  "addFields fs emb =
     (if list_all (\<lambda>f. field_name f \<noteq> [] \<and> field_text f \<noteq> []) fs
      then Inr (emb\<lparr>embed_fields := embed_fields emb @ fs\<rparr>)
      else Inl EmbedError)"

subsection \<open>\<open>parseIdentifier\<close>\<close>

text \<open>
  \<open>String.prototype.split\<close> with a one-character separator: the pieces between the
  separators, empty pieces included; a string without the separator is its own single
  piece, so the result is never empty.
\<close>

fun split_str :: "char \<Rightarrow> string \<Rightarrow> string list" where
  "split_str sep [] = [[]]"
| "split_str sep (c # cs) =
     (if c = sep then [] # split_str sep cs
      else (case split_str sep cs of
              [] \<Rightarrow> [[c]]
            | s # ss \<Rightarrow> (c # s) # ss))"

text \<open>
  \<open>url.split('/')[5].split('#')[0]\<close>. Index 5 of a shorter array is \<open>undefined\<close>
  and calling \<open>split\<close> on it throws a \<open>TypeError\<close>; index 0 of the second array
  always exists.
\<close>

definition parseIdentifier :: "string \<Rightarrow> exn + string" where
  "parseIdentifier u =
     (let segments = split_str (CHR ''/'') u
      in if 5 < length segments
         then Inr (hd (split_str (CHR ''#'') (segments ! 5)))
         else Inl TypeError)"

subsection \<open>Reading a property of the mention table\<close>

text \<open>
  \<open>LINEAR_DISPLAY_NAME_TO_DISCORD_ID[key]\<close> reads a property of an object literal:
  an own property gives its string; any other key is looked up on
  \<open>Object.prototype\<close>, whose members are native functions (\<open>constructor\<close> is the
  function \<open>Object\<close>) and, under \<open>__proto__\<close>, the prototype object
  itself; a key found nowhere gives \<open>undefined\<close>.
\<close>

datatype property =
    Undefined
  | StringValue string
  | NativeFunction string
  | PrototypeObject

definition OBJECT_PROTOTYPE_FUNCTIONS :: "string list" where
  "OBJECT_PROTOTYPE_FUNCTIONS =
     [''__defineGetter__'', ''__defineSetter__'', ''hasOwnProperty'',
      ''__lookupGetter__'', ''__lookupSetter__'', ''isPrototypeOf'',
      ''propertyIsEnumerable'', ''toString'', ''valueOf'', ''toLocaleString'']"

definition get_property :: "(string \<times> string) list \<Rightarrow> string \<Rightarrow> property" where
  "get_property obj k =
     (case map_of obj k of
        Some v \<Rightarrow> StringValue v
      | None \<Rightarrow>
          if k = ''constructor'' then NativeFunction ''Object''
          else if k = ''__proto__'' then PrototypeObject
          else if k \<in> set OBJECT_PROTOTYPE_FUNCTIONS then NativeFunction k
          else Undefined)"

text \<open>The test of \<open>v ? ... : ...\<close>: only \<open>undefined\<close> and the empty string are falsy here.\<close>

fun truthy :: "property \<Rightarrow> bool" where
  "truthy Undefined = False"
| "truthy (StringValue s) = (s \<noteq> [])"
| "truthy (NativeFunction n) = True"
| "truthy PrototypeObject = True"

text \<open>A property inside a template literal.\<close>

fun template_string :: "property \<Rightarrow> string" where
  "template_string Undefined = ''undefined''"
| "template_string (StringValue s) = s"
| "template_string (NativeFunction n) = ''function '' @ n @ ''() { [native code] }''"
| "template_string PrototypeObject = ''[object Object]''"

subsection \<open>Outbound calls and their sequencing\<close>

text \<open>
  The calls the handler awaits, each with whether it resolved: \<open>linear.user(id)\<close>,
  \<open>linear.issue(id)\<close>, the \<open>assignee\<close> promise of the issue with that id, and
  \<open>fetch(webhookUrl, ...)\<close> with the JSON body it posts.
\<close>

datatype effect =
    UserLookup string bool
  | IssueLookup string bool
  | AssigneeLookup string bool
  | Dispatch string discord_payload bool

text \<open>
  A run of a piece of the \<open>try\<close> block: the calls made so far and either the
  exception that ended it or its value.
\<close>

type_synonym 'a run = "effect list \<times> (exn + 'a)"

definition done_with :: "'a \<Rightarrow> 'a run" where
  "done_with x = ([], Inr x)"

definition throw :: "exn \<Rightarrow> 'a run" where
  "throw e = ([], Inl e)"

text \<open>Statement after statement: the second runs only when the first did not throw.\<close>

definition and_then :: "'a run \<Rightarrow> ('a \<Rightarrow> 'b run) \<Rightarrow> 'b run" where
  "and_then m f =
     (case m of
        (es, Inl e) \<Rightarrow> (es, Inl e)
      | (es, Inr x) \<Rightarrow> (case f x of (es', r) \<Rightarrow> (es @ es', r)))"

definition await_user :: "'j world \<Rightarrow> string \<Rightarrow> string \<Rightarrow> User run" where
  "await_user env apiKey uid =
     (case linear_user env apiKey uid of
        Rejects \<Rightarrow> ([UserLookup uid False], Inl LinearFailure)
      | Resolves u \<Rightarrow> ([UserLookup uid True], Inr u))"

definition await_issue :: "'j world \<Rightarrow> string \<Rightarrow> string \<Rightarrow> LinearIssue run" where
  "await_issue env apiKey iid =
     (case linear_issue env apiKey iid of
        Rejects \<Rightarrow> ([IssueLookup iid False], Inl LinearFailure)
      | Resolves i \<Rightarrow> ([IssueLookup iid True], Inr i))"

definition await_assignee :: "string \<Rightarrow> User awaited \<Rightarrow> User run" where
  "await_assignee iid p =
     (case p of
        Rejects \<Rightarrow> ([AssigneeLookup iid False], Inl LinearFailure)
      | Resolves u \<Rightarrow> ([AssigneeLookup iid True], Inr u))"

definition await_fetch :: "'j world \<Rightarrow> string \<Rightarrow> discord_payload \<Rightarrow> unit run" where
  "await_fetch env u p =
     (if fetch_resolves env u p then ([Dispatch u p True], Inr ())
      else ([Dispatch u p False], Inl FetchFailure))"

definition from_result :: "exn + 'a \<Rightarrow> 'a run" where
  "from_result r = ([], r)"

subsection \<open>The three recipes of the \<open>switch\<close>\<close>

text \<open>What the \<open>switch\<close> leaves behind: \<open>embed\<close>, \<open>assignee\<close> and \<open>actionUser\<close>.\<close>

type_synonym enriched = "MessageEmbed \<times> User option \<times> User option"

definition footer_of :: "User \<Rightarrow> EmbedFooter" where
  "footer_of u = \<lparr>footer_text = user_name u, footer_iconURL = avatarUrl u\<rparr>"

text \<open>\<open>if (body.data.description) embed.setDescription(...)\<close>: an empty string is falsy.\<close>

definition set_description_if :: "string option \<Rightarrow> MessageEmbed \<Rightarrow> MessageEmbed" where
  "set_description_if d emb =
     (case d of
        None \<Rightarrow> emb
      | Some t \<Rightarrow> if t = [] then emb else emb\<lparr>embed_description := Some t\<rparr>)"

text \<open>\<open>Model.ISSUE\<close> with \<open>Action.CREATE\<close> (lines 90 to 120).\<close>

definition recipe_issue_create ::
  "'j world \<Rightarrow> string \<Rightarrow> event_body \<Rightarrow> issue_data \<Rightarrow> MessageEmbed \<Rightarrow> enriched run" where
  "recipe_issue_create env linear b d emb =
     and_then (await_user env linear (creatorId d)) (\<lambda>actionUser.
     and_then (from_result (parseIdentifier (url b))) (\<lambda>identifier.
     and_then (from_result
       (addFields
          [\<lparr>field_name = ''Team'',
            field_text = ''['' @ team_name (team d) @ '']('' @
                         LINEAR_BASE_URL @ ''/team/'' @ team_key (team d) @ '')'',
            field_inline = True\<rparr>,
           \<lparr>field_name = ''Status'', field_text = state_name (state d),
            field_inline = True\<rparr>]
          (emb\<lparr>embed_title := Some (identifier @ '' '' @ title d),
               embed_url := Some (url b),
               embed_author := Some ''New issue added'',
               embed_footer := Some (footer_of actionUser)\<rparr>))) (\<lambda>emb1.
       case assignee d of
         None \<Rightarrow>
           done_with (set_description_if (description d) emb1, None, Some actionUser)
       | Some a \<Rightarrow>
           and_then (await_user env linear (assignee_id a)) (\<lambda>asg.
           and_then (from_result
             (addFields
                [\<lparr>field_name = ''Assignee'',
                  field_text = ''['' @ displayName asg @ '']('' @ user_url asg @ '')'',
                  field_inline = True\<rparr>]
                emb1)) (\<lambda>emb2.
             done_with (set_description_if (description d) emb2, Some asg, Some actionUser))))))"

text \<open>
  \<open>Model.ISSUE\<close> with \<open>Action.UPDATE\<close> and a truthy \<open>body.updatedFrom?.stateId\<close>
  (lines 122 to 135).
\<close>

definition recipe_issue_update ::
  "'j world \<Rightarrow> string \<Rightarrow> event_body \<Rightarrow> issue_data \<Rightarrow> MessageEmbed \<Rightarrow> enriched run" where
  "recipe_issue_update env linear b d emb =
     and_then (await_user env linear (creatorId d)) (\<lambda>actionUser.
     and_then (from_result (parseIdentifier (url b))) (\<lambda>identifier.
     and_then (case assignee d of
                 None \<Rightarrow> done_with None
               | Some a \<Rightarrow>
                   and_then (await_user env linear (assignee_id a)) (\<lambda>asg.
                     done_with (Some asg))) (\<lambda>asg.
     and_then (from_result
       (setColor env (state_color (state d))
          (emb\<lparr>embed_title := Some (identifier @ '' '' @ title d),
               embed_url := Some (url b),
               embed_author := Some ''Status changed''\<rparr>))) (\<lambda>emb1.
       done_with
         (emb1\<lparr>embed_footer := Some (footer_of actionUser),
                embed_description := Some (''Status: **'' @ state_name (state d) @ ''**'')\<rparr>,
          asg, Some actionUser)))))"

text \<open>\<open>Model.COMMENT\<close> with \<open>Action.CREATE\<close> (lines 142 to 155).\<close>

definition recipe_comment_create ::
  "'j world \<Rightarrow> string \<Rightarrow> event_body \<Rightarrow> comment_data \<Rightarrow> MessageEmbed \<Rightarrow> enriched run" where
  "recipe_comment_create env linear b d emb =
     and_then (await_user env linear (userId d)) (\<lambda>actionUser.
     and_then (await_issue env linear (issue_id (issue d))) (\<lambda>linearIssue.
     and_then (from_result (parseIdentifier (url b))) (\<lambda>identifier.
     and_then (case issue_assignee linearIssue of
                 None \<Rightarrow> done_with None
               | Some p \<Rightarrow>
                   and_then (await_assignee (issue_id (issue d)) p) (\<lambda>asg.
                     done_with (Some asg))) (\<lambda>asg.
       done_with
         (emb
            \<lparr>embed_title := Some (identifier @ '' '' @ issue_title (issue d)),
             embed_url := Some (url b),
             embed_author := Some ''New comment'',
             embed_footer := Some (footer_of actionUser),
             embed_description := Some (comment_body d)\<rparr>,
          asg, Some actionUser)))))"

text \<open>\<open>body.updatedFrom?.stateId\<close> as a condition: there and not the empty string.\<close>

definition status_changed :: "updated_from option \<Rightarrow> bool" where
  "status_changed uf =
     (case uf of
        None \<Rightarrow> False
      | Some r \<Rightarrow> (case stateId r of None \<Rightarrow> False | Some s \<Rightarrow> s \<noteq> []))"

text \<open>
  Whether a recipe of the \<open>switch\<close> runs for the payload, in the source's order of
  tests.
\<close>

definition has_recipe :: "event_body \<Rightarrow> bool" where
  "has_recipe b =
     (case payload b of
        IssueData d uf \<Rightarrow> action b = CREATE \<or> (action b = UPDATE \<and> status_changed uf)
      | CommentData d \<Rightarrow> action b = CREATE
      | OtherData \<Rightarrow> False)"

text \<open>The \<open>switch (body.type)\<close> statement (lines 87 to 160).\<close>

definition switch_type ::
  "'j world \<Rightarrow> string \<Rightarrow> event_body \<Rightarrow> MessageEmbed \<Rightarrow> enriched run" where
  "switch_type env linear b emb =
     (case payload b of
        IssueData d uf \<Rightarrow>
          if action b = CREATE then recipe_issue_create env linear b d emb
          else if action b = UPDATE \<and> status_changed uf then recipe_issue_update env linear b d emb
          else done_with (emb, None, None)
      | CommentData d \<Rightarrow>
          if action b = CREATE then recipe_comment_create env linear b d emb
          else done_with (emb, None, None)
      | OtherData \<Rightarrow> done_with (emb, None, None))"

subsection \<open>The handler\<close>

text \<open>\<open>new MessageEmbed({color: LINEAR_COLOR, timestamp: body.createdAt})\<close>.\<close>

definition new_embed :: "'j world \<Rightarrow> event_body \<Rightarrow> exn + MessageEmbed" where
  "new_embed env b =
     (case resolveColor env LINEAR_COLOR of
        Inl e \<Rightarrow> Inl e
      | Inr n \<Rightarrow>
          Inr \<lparr>embed_color = n, embed_timestamp = posted_timestamp env (createdAt b),
               embed_title = None, embed_url = None, embed_author = None,
               embed_footer = None, embed_fields = [], embed_description = None\<rparr>)"

text \<open>The constant \<open>discordUserId\<close> of lines 164 to 166.\<close>

definition discordUserId :: "User option \<Rightarrow> User option \<Rightarrow> property" where
  "discordUserId asg actionUser =
     (case asg of
        None \<Rightarrow> Undefined
      | Some a \<Rightarrow>
          (case actionUser of
             None \<Rightarrow> Undefined
           | Some u \<Rightarrow>
               if user_id a \<noteq> user_id u
               then get_property LINEAR_DISPLAY_NAME_TO_DISCORD_ID (displayName a)
               else Undefined))"

text \<open>The \<open>content\<close> member of the posted JSON (lines 171 to 174).\<close>

definition content_of :: "property \<Rightarrow> string option" where
  "content_of v =
     (if truthy v then Some (MENTION_GREETING @ '' <@'' @ template_string v @ ''>'')
      else None)"

definition discord_message :: "enriched \<Rightarrow> discord_payload" where
  "discord_message x =
     (case x of (emb, asg, actionUser) \<Rightarrow>
        \<lparr>content = content_of (discordUserId asg actionUser),
         username = WEBHOOK_USERNAME, avatar_url = WEBHOOK_AVATAR_URL,
         embeds = [emb]\<rparr>)"

text \<open>\<open>req.method\<close> inside a template literal.\<close>

definition method_text :: "string option \<Rightarrow> string" where
  "method_text m = (case m of None \<Rightarrow> ''undefined'' | Some s \<Rightarrow> s)"

text \<open>\<open>req.headers['x-vercel-forwarded-for'] || ''\<close>.\<close>

definition forwardedFor :: "'j VercelRequest \<Rightarrow> header_value" where
  "forwardedFor req =
     (case x_vercel_forwarded_for req of
        None \<Rightarrow> HeaderString []
      | Some h \<Rightarrow> h)"

definition envelope_ok :: "string \<Rightarrow> response" where
  "envelope_ok m = \<lparr>statusCode = 200, success = True, message = Some m, error = ErrorNull\<rparr>"

text \<open>The \<open>try\<close> block of \<open>handler\<close> (lines 47 to 181).\<close>

definition try_block :: "'j world \<Rightarrow> 'j VercelRequest \<Rightarrow> response run" where
  "try_block env req =
     (if req_method req \<noteq> Some ''POST''
      then throw (HttpError (''Method '' @ method_text (req_method req) @ '' is not allowed.'') 405)
      else if NODE_ENV env \<noteq> Some ''development'' \<and> \<not> trusted_ip (forwardedFor req)
      then throw (HttpError (''Request from IP address ''
                     @ header_to_string (forwardedFor req) @ '' is not allowed.'') 403)
      else
        and_then (from_result (QUERY_SCHEMA_parse (req_query req))) (\<lambda>q.
          case SCHEMA_safeParse env (req_body req) of
            None \<Rightarrow> done_with (envelope_ok ''Event skipped.'')
          | Some b \<Rightarrow>
              and_then (from_result (new_embed env b)) (\<lambda>emb.
              and_then (from_result (new_LinearClient (linearToken q))) (\<lambda>linear.
              and_then (switch_type env linear b emb) (\<lambda>x.
              and_then (await_fetch env
                          (DISCORD_WEBHOOKS_URL @ ''/'' @ webhookId q @ ''/'' @ webhookToken q)
                          (discord_message x)) (\<lambda>_.
                done_with (envelope_ok ''OK'')))))))"

text \<open>
  \<open>handler\<close>: the calls it awaited, in order, and the response it sent, either by
  the \<open>try\<close> block or by the \<open>catch\<close> block.
\<close>

definition handler :: "'j world \<Rightarrow> 'j VercelRequest \<Rightarrow> effect list \<times> response" where
  "handler env req =
     (case try_block env req of
        (es, Inl e) \<Rightarrow> (es, catch_block e)
      | (es, Inr r) \<Rightarrow> (es, r))"

subsection \<open>Vocabulary of the properties\<close>

text \<open>The three members \<open>QUERY_SCHEMA\<close> requires, and whether a member is a string.\<close>

definition QUERY_KEYS :: "string list" where
  "QUERY_KEYS = [''webhookId'', ''webhookToken'', ''linearToken'']"

fun is_query_string :: "query_value option \<Rightarrow> bool" where
  "is_query_string (Some (QueryString s)) = True"
| "is_query_string (Some (QueryArray ss)) = False"
| "is_query_string None = False"

text \<open>An enrichment lookup that threw, and the outbound dispatch.\<close>

fun failed_lookup :: "effect \<Rightarrow> bool" where
  "failed_lookup (UserLookup i ok) = (\<not> ok)"
| "failed_lookup (IssueLookup i ok) = (\<not> ok)"
| "failed_lookup (AssigneeLookup i ok) = (\<not> ok)"
| "failed_lookup (Dispatch u p ok) = False"

fun is_dispatch :: "effect \<Rightarrow> bool" where
  "is_dispatch (Dispatch u p ok) = True"
| "is_dispatch (UserLookup i ok) = False"
| "is_dispatch (IssueLookup i ok) = False"
| "is_dispatch (AssigneeLookup i ok) = False"

text \<open>The response of the \<open>catch\<close> block to anything but the two classes it knows.\<close>

definition generic_failure :: response where
  "generic_failure =
     \<lparr>statusCode = 500, success = False, message = None,
      error = ErrorString ''Something went wrong.''\<rparr>"

text \<open>
  The request passes the two gates of lines 50 to 62: the method is \<open>POST\<close>, and the
  forwarded address is trusted or the process runs in development mode.
\<close>

definition passes_gates :: "'j world \<Rightarrow> 'j VercelRequest \<Rightarrow> bool" where
  "passes_gates env req =
     (req_method req = Some ''POST'' \<and>
      (NODE_ENV env = Some ''development'' \<or> trusted_ip (forwardedFor req)))"

text \<open>
  The embed as the constructor leaves it: the brand colour \<open>#5E6AD2\<close> as the integer
  it resolves to, what is posted for the event's \<open>createdAt\<close>, and nothing else.
\<close>

definition empty_embed :: "'j world \<Rightarrow> event_body \<Rightarrow> MessageEmbed" where
  "empty_embed env b =
     \<lparr>embed_color = 6187730, embed_timestamp = posted_timestamp env (createdAt b),
      embed_title = None, embed_url = None, embed_author = None, embed_footer = None,
      embed_fields = [], embed_description = None\<rparr>"

text \<open>
  What holds of every run of the \<open>switch\<close>: it makes no dispatch; an exception that
  ends it is one the \<open>catch\<close> block answers with the generic failure; and when it
  ends in a value, no lookup failed.
\<close>

definition lookup_run :: "'a run \<Rightarrow> bool" where
  "lookup_run m =
     (case m of (es, r) \<Rightarrow>
        list_all (\<lambda>e. \<not> is_dispatch e) es \<and>
        (case r of
           Inl x \<Rightarrow> catch_block x = generic_failure
         | Inr v \<Rightarrow> list_all (\<lambda>e. \<not> failed_lookup e) es))"

text \<open>
  An enrichment lookup of the event's recipe rejects in the world, for a client with the
  given key. The lookups are those of the spec's table: for an issue created or an issue
  whose status changed, the user with the creator id and, when the issue has an
  assignee, the user with the assignee's id; for a comment created, the user with the
  author id, the parent issue by its id, and the assignee of that issue when it has one.
\<close>

definition enrichment_rejects :: "'j world \<Rightarrow> string \<Rightarrow> event_body \<Rightarrow> bool" where
  "enrichment_rejects env linear b =
     (case payload b of
        IssueData d uf \<Rightarrow>
          (action b = CREATE \<or> (action b = UPDATE \<and> status_changed uf)) \<and>
          (linear_user env linear (creatorId d) = Rejects \<or>
           (case assignee d of
              None \<Rightarrow> False
            | Some a \<Rightarrow> linear_user env linear (assignee_id a) = Rejects))
      | CommentData d \<Rightarrow>
          action b = CREATE \<and>
          (linear_user env linear (userId d) = Rejects \<or>
           (case linear_issue env linear (issue_id (issue d)) of
              Rejects \<Rightarrow> True
            | Resolves parent \<Rightarrow> issue_assignee parent = Some Rejects))
      | OtherData \<Rightarrow> False)"

subsection \<open>Example inputs\<close>

text \<open>
  A production world whose schema knows nine bodies (named by strings), whose Linear API
  knows three users and two issues, the second with an assignee who cannot be fetched,
  and whose \<open>fetch\<close> resolves; and a \<open>POST\<close> request from a trusted address with the
  three query members.
\<close>

definition demo_query :: "string \<rightharpoonup> query_value" where
  "demo_query =
     [''webhookId'' \<mapsto> QueryString ''1001'',
      ''webhookToken'' \<mapsto> QueryString ''tok'',
      ''linearToken'' \<mapsto> QueryString ''lin_api_key'']"

definition ann :: User where
  "ann = \<lparr>user_id = ''user-ann'', user_name = ''Ann'', displayName = ''ann'',
          user_url = ''https://linear.app/acme/profiles/ann'', avatarUrl = None\<rparr>"

definition kong :: User where
  "kong = \<lparr>user_id = ''user-kong'', user_name = ''Kong'', displayName = ''kong'',
           user_url = ''https://linear.app/acme/profiles/kong'', avatarUrl = None\<rparr>"

definition ctor :: User where
  "ctor = \<lparr>user_id = ''user-ctor'', user_name = ''Connie'', displayName = ''constructor'',
           user_url = ''https://linear.app/acme/profiles/constructor'', avatarUrl = None\<rparr>"

definition demo_issue :: issue_data where
  "demo_issue =
     \<lparr>creatorId = ''user-ann'', title = ''Fix login'',
      team = \<lparr>team_key = ''ENG'', team_name = ''Engineering''\<rparr>,
      state = \<lparr>state_name = ''Todo'', state_color = ''#e2e2e2''\<rparr>,
      assignee = Some \<lparr>assignee_id = ''user-kong''\<rparr>, description = None\<rparr>"

definition demo_event :: "Action \<Rightarrow> event_data \<Rightarrow> event_body" where
  "demo_event a d =
     \<lparr>action = a, createdAt = ''2022-03-01T10:00:00.000Z'',
      url = ''https://linear.app/acme/issue/ENG-123/fix-login'', payload = d\<rparr>"

definition demo_comment :: comment_data where
  "demo_comment =
     \<lparr>userId = ''user-ann'',
      issue = \<lparr>issue_id = ''issue-1'', issue_title = ''Fix login''\<rparr>,
      comment_body = ''Looks good''\<rparr>"

definition demo_schema :: "string \<Rightarrow> event_body option" where
  "demo_schema j =
     (if j = ''issue-create'' then Some (demo_event CREATE (IssueData demo_issue None))
      else if j = ''issue-create-constructor''
        then Some (demo_event CREATE
               (IssueData (demo_issue\<lparr>assignee := Some \<lparr>assignee_id = ''user-ctor''\<rparr>\<rparr>) None))
      else if j = ''issue-create-stranger''
        then Some (demo_event CREATE
               (IssueData (demo_issue\<lparr>creatorId := ''user-nobody''\<rparr>) None))
      else if j = ''issue-create-short-url''
        then Some ((demo_event CREATE (IssueData demo_issue None))
               \<lparr>url := ''https://linear.app/ENG-123''\<rparr>)
      else if j = ''issue-retitled''
        then Some (demo_event UPDATE (IssueData demo_issue (Some \<lparr>stateId = None\<rparr>)))
      else if j = ''comment-create'' then Some (demo_event CREATE (CommentData demo_comment))
      else if j = ''issue-create-ghost-assignee''
        then Some (demo_event CREATE
               (IssueData (demo_issue\<lparr>assignee := Some \<lparr>assignee_id = ''user-ghost''\<rparr>\<rparr>) None))
      else if j = ''comment-create-orphan''
        then Some (demo_event CREATE
               (CommentData (demo_comment
                  \<lparr>issue := \<lparr>issue_id = ''issue-404'', issue_title = ''Gone''\<rparr>\<rparr>)))
      else if j = ''comment-create-broken-assignee''
        then Some (demo_event CREATE
               (CommentData (demo_comment
                  \<lparr>issue := \<lparr>issue_id = ''issue-2'', issue_title = ''Flaky''\<rparr>\<rparr>)))
      else None)"

definition demo_world :: "string world" where
  "demo_world =
     \<lparr>NODE_ENV = None,
      SCHEMA_safeParse = demo_schema,
      linear_user = (\<lambda>k i. if i = ''user-ann'' then Resolves ann
                            else if i = ''user-kong'' then Resolves kong
                            else if i = ''user-ctor'' then Resolves ctor
                            else Rejects),
      linear_issue = (\<lambda>k i. if i = ''issue-1''
                             then Resolves \<lparr>issue_assignee = Some (Resolves kong)\<rparr>
                             else if i = ''issue-2''
                             then Resolves \<lparr>issue_assignee = Some Rejects\<rparr>
                             else Rejects),
      fetch_resolves = (\<lambda>u p. True),
      resolve_other_color = (\<lambda>c. None),
      posted_timestamp = IsoTime\<rparr>"

definition demo_request :: "string \<Rightarrow> string VercelRequest" where
  "demo_request j =
     \<lparr>req_method = Some ''POST'',
      x_vercel_forwarded_for = Some (HeaderString ''35.231.147.226''),
      req_query = demo_query, req_body = j\<rparr>"

section \<open>Properties\<close>

subsection \<open>Sequencing and the shape of a run\<close>

lemmas demo_defs = demo_request_def demo_world_def demo_schema_def demo_query_def
  demo_event_def demo_issue_def demo_comment_def ann_def kong_def ctor_def

lemmas run_defs = handler_def try_block_def and_then_def from_result_def throw_def done_with_def
  QUERY_SCHEMA_parse_def switch_type_def recipe_issue_create_def recipe_issue_update_def
  recipe_comment_create_def await_user_def await_issue_def await_assignee_def await_fetch_def
  parseIdentifier_def catch_block_def envelope_ok_def forwardedFor_def LINEAR_TRUSTED_IPS_def
  status_changed_def discord_message_def discordUserId_def content_of_def get_property_def
  new_embed_def set_description_if_def footer_of_def method_text_def new_LinearClient_def
  resolveColor_def setColor_def addFields_def LINEAR_COLOR_def HEX_DIGITS_def

lemma and_then_done [simp]: "and_then (done_with x) f = f x"
  by (simp add: and_then_def done_with_def split: prod.splits)

lemma and_then_throw [simp]: "and_then (throw e) f = throw e"
  by (simp add: and_then_def throw_def)

lemma and_then_from_result [simp]:
  "and_then (from_result (Inr x)) f = f x"
  "and_then (from_result (Inl e)) f = throw e"
  by (simp_all add: and_then_def from_result_def throw_def split: prod.splits)

lemma catch_block_generic [simp]:
  "catch_block LinearFailure = generic_failure"
  "catch_block TypeError = generic_failure"
  "catch_block FetchFailure = generic_failure"
  "catch_block ClientError = generic_failure"
  "catch_block EmbedError = generic_failure"
  by (simp_all add: catch_block_def generic_failure_def)

text \<open>The constructor of the embed resolves the brand colour and never throws.\<close>

lemma resolveColor_brand: "resolveColor env LINEAR_COLOR = Inr 6187730"
  by (simp add: resolveColor_def LINEAR_COLOR_def HEX_DIGITS_def)

lemma new_embed_brand: "new_embed env b = Inr (empty_embed env b)"
  by (simp add: new_embed_def resolveColor_brand empty_embed_def)

lemma handler_throw: "try_block env req = throw e \<Longrightarrow> handler env req = ([], catch_block e)"
  by (simp add: handler_def throw_def)

lemma try_block_not_post:
  "req_method req \<noteq> Some ''POST'' \<Longrightarrow>
   try_block env req =
     throw (HttpError (''Method '' @ method_text (req_method req) @ '' is not allowed.'') 405)"
  by (simp add: try_block_def)

lemma try_block_untrusted:
  "req_method req = Some ''POST'' \<Longrightarrow> NODE_ENV env \<noteq> Some ''development'' \<Longrightarrow>
   \<not> trusted_ip (forwardedFor req) \<Longrightarrow>
   try_block env req =
     throw (HttpError (''Request from IP address ''
              @ header_to_string (forwardedFor req) @ '' is not allowed.'') 403)"
  by (simp add: try_block_def)

lemma try_block_gates:
  "passes_gates env req \<Longrightarrow>
   try_block env req =
     and_then (from_result (QUERY_SCHEMA_parse (req_query req))) (\<lambda>q.
       case SCHEMA_safeParse env (req_body req) of
         None \<Rightarrow> done_with (envelope_ok ''Event skipped.'')
       | Some b \<Rightarrow>
           and_then (from_result (new_LinearClient (linearToken q))) (\<lambda>linear.
           and_then (switch_type env linear b (empty_embed env b)) (\<lambda>x.
           and_then (await_fetch env
                       (DISCORD_WEBHOOKS_URL @ ''/'' @ webhookId q @ ''/'' @ webhookToken q)
                       (discord_message x)) (\<lambda>_.
             done_with (envelope_ok ''OK'')))))"
  by (cases "SCHEMA_safeParse env (req_body req)")
    (auto simp add: try_block_def passes_gates_def new_embed_brand)

lemma handler_bad_query:
  assumes "passes_gates env req"
      and "QUERY_SCHEMA_parse (req_query req) = Inl e"
  shows "handler env req = ([], catch_block e)"
  using assms by (simp add: handler_def try_block_gates throw_def)

lemma handler_skipped:
  assumes "passes_gates env req"
      and "QUERY_SCHEMA_parse (req_query req) = Inr q"
      and "SCHEMA_safeParse env (req_body req) = None"
  shows "handler env req = ([], envelope_ok ''Event skipped.'')"
  using assms by (simp add: handler_def try_block_gates done_with_def)

text \<open>An empty \<open>linearToken\<close> ends the request where the client is built.\<close>

lemma handler_no_client:
  assumes "passes_gates env req"
      and "QUERY_SCHEMA_parse (req_query req) = Inr q"
      and "SCHEMA_safeParse env (req_body req) = Some b"
      and "linearToken q = []"
  shows "handler env req = ([], generic_failure)"
  using assms by (simp add: handler_def try_block_gates new_LinearClient_def throw_def)

text \<open>
  Past the gates, the query schema, the payload schema and the construction of the
  client, the handler is the \<open>switch\<close>, then one \<open>fetch\<close>, then the response.
\<close>

lemma handler_event:
  assumes "passes_gates env req"
      and "QUERY_SCHEMA_parse (req_query req) = Inr q"
      and "SCHEMA_safeParse env (req_body req) = Some b"
      and "linearToken q \<noteq> []"
  shows "handler env req =
     (case switch_type env (linearToken q) b (empty_embed env b) of
        (es, Inl e) \<Rightarrow> (es, catch_block e)
      | (es, Inr x) \<Rightarrow>
          (es @ [Dispatch (DISCORD_WEBHOOKS_URL @ ''/'' @ webhookId q @ ''/'' @ webhookToken q)
                   (discord_message x)
                   (fetch_resolves env
                      (DISCORD_WEBHOOKS_URL @ ''/'' @ webhookId q @ ''/'' @ webhookToken q)
                      (discord_message x))],
           if fetch_resolves env
                (DISCORD_WEBHOOKS_URL @ ''/'' @ webhookId q @ ''/'' @ webhookToken q)
                (discord_message x)
           then envelope_ok ''OK'' else generic_failure))"
proof -
  obtain es r where sw: "switch_type env (linearToken q) b (empty_embed env b) = (es, r)"
    by (cases "switch_type env (linearToken q) b (empty_embed env b)")
  have "try_block env req =
      and_then (switch_type env (linearToken q) b (empty_embed env b)) (\<lambda>x.
        and_then (await_fetch env
                    (DISCORD_WEBHOOKS_URL @ ''/'' @ webhookId q @ ''/'' @ webhookToken q)
                    (discord_message x)) (\<lambda>_.
          done_with (envelope_ok ''OK'')))"
    using assms by (simp add: try_block_gates new_LinearClient_def)
  then show ?thesis
    using sw
    by (cases r)
      (simp_all add: handler_def and_then_def await_fetch_def done_with_def generic_failure_def
        catch_block_def)
qed

lemma demo_gates: "passes_gates demo_world (demo_request j)"
  by (simp add: passes_gates_def demo_defs forwardedFor_def LINEAR_TRUSTED_IPS_def)

subsection \<open>The query schema\<close>

lemma is_query_string_iff: "is_query_string v \<longleftrightarrow> (\<exists>s. v = Some (QueryString s))"
  by (cases v rule: is_query_string.cases) simp_all

lemma QUERY_SCHEMA_parse_ok:
  "(\<forall>k \<in> set QUERY_KEYS. is_query_string (q k)) \<Longrightarrow> \<exists>c. QUERY_SCHEMA_parse q = Inr c"
  by (auto simp add: QUERY_SCHEMA_parse_def QUERY_KEYS_def is_query_string_iff)

lemma QUERY_SCHEMA_parse_strings:
  assumes "q ''webhookId'' = Some (QueryString wid)"
      and "q ''webhookToken'' = Some (QueryString wtok)"
      and "q ''linearToken'' = Some (QueryString ltok)"
  shows "QUERY_SCHEMA_parse q = Inr \<lparr>webhookId = wid, webhookToken = wtok, linearToken = ltok\<rparr>"
  using assms by (simp add: QUERY_SCHEMA_parse_def)

lemma QUERY_SCHEMA_parse_issues:
  "(\<exists>k \<in> set QUERY_KEYS. \<not> is_query_string (q k)) \<Longrightarrow>
   QUERY_SCHEMA_parse q =
     Inl (ZodError (z_string ''webhookId'' (q ''webhookId'')
                    @ z_string ''webhookToken'' (q ''webhookToken'')
                    @ z_string ''linearToken'' (q ''linearToken'')))"
  by (auto simp add: QUERY_SCHEMA_parse_def QUERY_KEYS_def
      split: option.splits query_value.splits)

lemma z_string_empty_iff: "z_string k v = [] \<longleftrightarrow> is_query_string v"
  by (cases "(k, v)" rule: z_string.cases) simp_all

lemma z_string_path: "i \<in> set (z_string k v) \<Longrightarrow> issue_path i = [k] \<and> \<not> is_query_string v"
  by (cases "(k, v)" rule: z_string.cases) (simp_all add: invalid_type_def)

lemma z_string_issue: "\<not> is_query_string v \<Longrightarrow> \<exists>i \<in> set (z_string k v). issue_path i = [k]"
  by (cases "(k, v)" rule: z_string.cases) (simp_all add: invalid_type_def)

subsection \<open>Runs of the \<open>switch\<close>\<close>

lemma lookup_run_and_then:
  assumes "lookup_run m" and "\<And>x. lookup_run (f x)"
  shows "lookup_run (and_then m f)"
proof (cases m)
  case (Pair es r)
  show ?thesis
  proof (cases r)
    case (Inl e)
    with Pair assms(1) show ?thesis
      by (simp add: lookup_run_def and_then_def)
  next
    case (Inr x)
    obtain es' r' where fx: "f x = (es', r')"
      by (cases "f x")
    from assms(2) [of x] fx have "lookup_run (es', r')"
      by simp
    with Pair Inr assms(1) fx show ?thesis
      by (auto simp add: lookup_run_def and_then_def split: sum.splits)
  qed
qed

lemma lookup_run_done [simp]: "lookup_run (done_with x)"
  by (simp add: lookup_run_def done_with_def)

lemma lookup_run_await_user [simp]: "lookup_run (await_user env k i)"
  by (simp add: lookup_run_def await_user_def split: awaited.splits)

lemma lookup_run_await_issue [simp]: "lookup_run (await_issue env k i)"
  by (simp add: lookup_run_def await_issue_def split: awaited.splits)

lemma lookup_run_await_assignee [simp]: "lookup_run (await_assignee i p)"
  by (simp add: lookup_run_def await_assignee_def split: awaited.splits)

lemma lookup_run_parseIdentifier [simp]: "lookup_run (from_result (parseIdentifier u))"
  by (simp add: lookup_run_def from_result_def parseIdentifier_def Let_def)

lemma lookup_run_addFields [simp]: "lookup_run (from_result (addFields fs emb))"
  by (simp add: lookup_run_def from_result_def addFields_def)

lemma resolveColor_throws: "resolveColor env c = Inl e \<Longrightarrow> e = EmbedError"
  by (auto simp add: resolveColor_def Let_def split: option.splits list.splits if_splits)

lemma lookup_run_setColor [simp]: "lookup_run (from_result (setColor env c emb))"
  by (auto simp add: lookup_run_def from_result_def setColor_def split: sum.splits
      dest: resolveColor_throws)

lemma lookup_run_issue_create: "lookup_run (recipe_issue_create env k b d emb)"
  unfolding recipe_issue_create_def Let_def
  by (intro lookup_run_and_then) (simp_all split: option.splits add: lookup_run_and_then)

lemma lookup_run_issue_update: "lookup_run (recipe_issue_update env k b d emb)"
  unfolding recipe_issue_update_def
  by (intro lookup_run_and_then) (simp_all split: option.splits add: lookup_run_and_then)

lemma lookup_run_comment_create: "lookup_run (recipe_comment_create env k b d emb)"
  unfolding recipe_comment_create_def
  by (intro lookup_run_and_then) (simp_all split: option.splits add: lookup_run_and_then)

lemma lookup_run_switch_type: "lookup_run (switch_type env k b emb)"
  by (simp add: switch_type_def lookup_run_issue_create lookup_run_issue_update
      lookup_run_comment_create split: event_data.splits)

subsection \<open>The method gate\<close>

text \<open>
  Claim C8. A request whose method is not \<open>POST\<close> (a missing method included) is
  answered with status 405 and \<open>success = false\<close>, whatever else it holds and whatever
  the world is; no outbound call is made.
\<close>

theorem non_post_is_405:
  "req_method req \<noteq> Some ''POST'' \<Longrightarrow>
     fst (handler env req) = [] \<and>
     statusCode (snd (handler env req)) = 405 \<and>
     success (snd (handler env req)) = False"
  by (simp add: handler_throw [OF try_block_not_post] catch_block_def)

theorem non_post_is_405_witness:
  "fst (handler demo_world ((demo_request ''issue-create'')\<lparr>req_method := Some ''GET''\<rparr>)) = [] \<and>
   statusCode (snd (handler demo_world
     ((demo_request ''issue-create'')\<lparr>req_method := Some ''GET''\<rparr>))) = 405 \<and>
   success (snd (handler demo_world
     ((demo_request ''issue-create'')\<lparr>req_method := Some ''GET''\<rparr>))) = False"
  using non_post_is_405
    [of "(demo_request ''issue-create'')\<lparr>req_method := Some ''GET''\<rparr>" demo_world]
  by (simp add: demo_request_def)

text \<open>What the handler answers once the two gates are passed.\<close>

lemma QUERY_SCHEMA_parse_throws:
  "QUERY_SCHEMA_parse q = Inl e \<Longrightarrow> \<exists>issues. e = ZodError issues"
  by (auto simp add: QUERY_SCHEMA_parse_def split: option.splits query_value.splits)

lemma status_past_gates:
  assumes "passes_gates env req"
  shows "statusCode (snd (handler env req)) \<in> {200, 400, 500}"
proof (cases "QUERY_SCHEMA_parse (req_query req)")
  case (Inl e)
  with QUERY_SCHEMA_parse_throws [OF Inl] handler_bad_query [OF assms Inl] show ?thesis
    by (auto simp add: catch_block_def)
next
  case (Inr q)
  show ?thesis
  proof (cases "SCHEMA_safeParse env (req_body req)")
    case None
    from handler_skipped [OF assms Inr None] show ?thesis
      by (simp add: envelope_ok_def)
  next
    case (Some b)
    show ?thesis
    proof (cases "linearToken q = []")
      case True
      from handler_no_client [OF assms Inr Some True] show ?thesis
        by (simp add: generic_failure_def)
    next
      case False
      obtain es r where sw: "switch_type env (linearToken q) b (empty_embed env b) = (es, r)"
        by (cases "switch_type env (linearToken q) b (empty_embed env b)")
      have "lookup_run (es, r)"
        using lookup_run_switch_type [of env "linearToken q" b "empty_embed env b"] sw by simp
      with sw handler_event [OF assms Inr Some False] show ?thesis
        by (cases r) (auto simp add: lookup_run_def envelope_ok_def generic_failure_def)
    qed
  qed
qed

subsection \<open>The address gate\<close>

lemma trusted_ip_iff:
  "trusted_ip (forwardedFor req) \<longleftrightarrow>
     (\<exists>ip \<in> set LINEAR_TRUSTED_IPS. x_vercel_forwarded_for req = Some (HeaderString ip))"
proof (cases "x_vercel_forwarded_for req")
  case None
  then show ?thesis
    by (simp add: forwardedFor_def LINEAR_TRUSTED_IPS_def)
next
  case (Some h)
  then show ?thesis
    by (cases h) (auto simp add: forwardedFor_def)
qed

lemma try_block_development:
  "NODE_ENV env = Some ''development'' \<Longrightarrow>
   try_block env (req\<lparr>x_vercel_forwarded_for := h\<rparr>) = try_block env req"
  by (simp add: try_block_def)

text \<open>
  Claim C7. For a \<open>POST\<close> request: outside development mode, a forwarded-for header
  that is not one of the two allow-listed address strings (a missing header and an
  array included) is answered with status 403 and \<open>success = false\<close>, and nothing is
  called; in development mode the header is not looked at (the whole outcome is the
  same for every value of the header) and the answer is never 403.
\<close>

theorem untrusted_ip_is_403:
  assumes "req_method req = Some ''POST''"
  shows "(NODE_ENV env \<noteq> Some ''development'' \<and>
          (\<forall>ip \<in> set LINEAR_TRUSTED_IPS.
             x_vercel_forwarded_for req \<noteq> Some (HeaderString ip)) \<longrightarrow>
            fst (handler env req) = [] \<and>
            statusCode (snd (handler env req)) = 403 \<and>
            success (snd (handler env req)) = False) \<and>
         (NODE_ENV env = Some ''development'' \<longrightarrow>
            (\<forall>h. handler env (req\<lparr>x_vercel_forwarded_for := h\<rparr>) = handler env req) \<and>
            statusCode (snd (handler env req)) \<noteq> 403)"
proof (intro conjI impI)
  assume a: "NODE_ENV env \<noteq> Some ''development'' \<and>
    (\<forall>ip \<in> set LINEAR_TRUSTED_IPS. x_vercel_forwarded_for req \<noteq> Some (HeaderString ip))"
  then have "\<not> trusted_ip (forwardedFor req)"
    by (simp add: trusted_ip_iff)
  with a assms have t: "handler env req =
      ([], catch_block (HttpError (''Request from IP address ''
              @ header_to_string (forwardedFor req) @ '' is not allowed.'') 403))"
    by (intro handler_throw try_block_untrusted) simp_all
  from t show "fst (handler env req) = []"
    by simp
  from t show "statusCode (snd (handler env req)) = 403"
    by (simp add: catch_block_def)
  from t show "success (snd (handler env req)) = False"
    by (simp add: catch_block_def)
next
  assume d: "NODE_ENV env = Some ''development''"
  show "\<forall>h. handler env (req\<lparr>x_vercel_forwarded_for := h\<rparr>) = handler env req"
    by (simp add: handler_def try_block_development [OF d])
  from d assms have "passes_gates env req"
    by (simp add: passes_gates_def)
  from status_past_gates [OF this] show "statusCode (snd (handler env req)) \<noteq> 403"
    by auto
qed

theorem untrusted_ip_is_403_witness:
  "statusCode (snd (handler demo_world
     ((demo_request ''issue-create'')
        \<lparr>x_vercel_forwarded_for := Some (HeaderString ''10.0.0.7'')\<rparr>))) = 403 \<and>
   success (snd (handler demo_world
     ((demo_request ''issue-create'')
        \<lparr>x_vercel_forwarded_for := Some (HeaderString ''10.0.0.7'')\<rparr>))) = False \<and>
   handler (demo_world\<lparr>NODE_ENV := Some ''development''\<rparr>)
     ((demo_request ''issue-create'')
        \<lparr>x_vercel_forwarded_for := Some (HeaderString ''10.0.0.7'')\<rparr>) =
   handler (demo_world\<lparr>NODE_ENV := Some ''development''\<rparr>) (demo_request ''issue-create'') \<and>
   statusCode (snd (handler (demo_world\<lparr>NODE_ENV := Some ''development''\<rparr>)
     ((demo_request ''issue-create'')
        \<lparr>x_vercel_forwarded_for := Some (HeaderString ''10.0.0.7'')\<rparr>))) \<noteq> 403"
proof -
  let ?r = "(demo_request ''issue-create'')
              \<lparr>x_vercel_forwarded_for := Some (HeaderString ''10.0.0.7'')\<rparr>"
  let ?dev = "demo_world\<lparr>NODE_ENV := Some ''development''\<rparr>"
  have p: "req_method ?r = Some ''POST''"
    by (simp add: demo_request_def)
  have prod: "NODE_ENV demo_world \<noteq> Some ''development'' \<and>
      (\<forall>ip \<in> set LINEAR_TRUSTED_IPS. x_vercel_forwarded_for ?r \<noteq> Some (HeaderString ip))"
    by (simp add: demo_world_def LINEAR_TRUSTED_IPS_def)
  have dev: "NODE_ENV ?dev = Some ''development''"
    by simp
  have same: "?r\<lparr>x_vercel_forwarded_for := Some (HeaderString ''35.231.147.226'')\<rparr> =
      demo_request ''issue-create''"
    by (simp add: demo_request_def)
  from untrusted_ip_is_403 [OF p, of demo_world] prod
  have a: "statusCode (snd (handler demo_world ?r)) = 403 \<and>
      success (snd (handler demo_world ?r)) = False"
    by blast
  from untrusted_ip_is_403 [OF p, of ?dev] dev
  have b: "(\<forall>h. handler ?dev (?r\<lparr>x_vercel_forwarded_for := h\<rparr>) = handler ?dev ?r) \<and>
      statusCode (snd (handler ?dev ?r)) \<noteq> 403"
    by blast
  then have "handler ?dev
      (?r\<lparr>x_vercel_forwarded_for := Some (HeaderString ''35.231.147.226'')\<rparr>) = handler ?dev ?r"
    by blast
  then have c: "handler ?dev ?r = handler ?dev (demo_request ''issue-create'')"
    by (simp only: same)
  from a b c show ?thesis
    by simp
qed

subsection \<open>Query validation\<close>

text \<open>
  Claim C6, amended. A request that passed the method and address gates and whose query
  lacks one of \<open>webhookId\<close>, \<open>webhookToken\<close>, \<open>linearToken\<close>, or holds an array
  there, is answered with status 400, \<open>success = false\<close> and an error that is a
  non-empty list of issues: a required member has an issue in the list exactly when it
  is not a string, and every issue is about a required member. Nothing is called.
\<close>

theorem missing_query_parameter_is_400:
  assumes "passes_gates env req"
      and "\<exists>k \<in> set QUERY_KEYS. \<not> is_query_string (req_query req k)"
  shows "\<exists>issues.
           handler env req =
             ([], \<lparr>statusCode = 400, success = False, message = None,
                   error = ErrorIssues issues\<rparr>) \<and>
           issues \<noteq> [] \<and>
           (\<forall>k \<in> set QUERY_KEYS.
              (\<exists>i \<in> set issues. issue_path i = [k]) \<longleftrightarrow>
              \<not> is_query_string (req_query req k)) \<and>
           (\<forall>i \<in> set issues. \<exists>k \<in> set QUERY_KEYS. issue_path i = [k])"
proof -
  let ?q = "req_query req"
  let ?issues = "z_string ''webhookId'' (?q ''webhookId'')
                 @ z_string ''webhookToken'' (?q ''webhookToken'')
                 @ z_string ''linearToken'' (?q ''linearToken'')"
  have "handler env req = ([], catch_block (ZodError ?issues))"
    by (rule handler_bad_query [OF assms(1) QUERY_SCHEMA_parse_issues [OF assms(2)]])
  then have h: "handler env req =
      ([], \<lparr>statusCode = 400, success = False, message = None, error = ErrorIssues ?issues\<rparr>)"
    by (simp add: catch_block_def)
  have ne: "?issues \<noteq> []"
    using assms(2) by (auto simp add: QUERY_KEYS_def z_string_empty_iff)
  have each: "\<forall>k \<in> set QUERY_KEYS.
      (\<exists>i \<in> set ?issues. issue_path i = [k]) \<longleftrightarrow> \<not> is_query_string (?q k)"
    using z_string_issue z_string_path
    by (fastforce simp add: QUERY_KEYS_def)
  have only: "\<forall>i \<in> set ?issues. \<exists>k \<in> set QUERY_KEYS. issue_path i = [k]"
    by (auto simp add: QUERY_KEYS_def dest: z_string_path)
  from h ne each only show ?thesis
    by blast
qed

theorem missing_query_parameter_is_400_witness:
  "\<exists>issues.
     handler demo_world
       ((demo_request ''issue-create'')\<lparr>req_query := demo_query(''linearToken'' := None)\<rparr>) =
       ([], \<lparr>statusCode = 400, success = False, message = None, error = ErrorIssues issues\<rparr>) \<and>
     issues \<noteq> [] \<and> (\<exists>i \<in> set issues. issue_path i = [''linearToken''])"
proof -
  let ?r = "(demo_request ''issue-create'')\<lparr>req_query := demo_query(''linearToken'' := None)\<rparr>"
  have g: "passes_gates demo_world ?r"
    by (simp add: passes_gates_def demo_defs forwardedFor_def LINEAR_TRUSTED_IPS_def)
  have m: "\<exists>k \<in> set QUERY_KEYS. \<not> is_query_string (req_query ?r k)"
    by (simp add: QUERY_KEYS_def demo_request_def demo_query_def)
  have k: "\<not> is_query_string (req_query ?r ''linearToken'')" "''linearToken'' \<in> set QUERY_KEYS"
    by (simp_all add: QUERY_KEYS_def demo_request_def demo_query_def)
  from missing_query_parameter_is_400 [OF g m] k show ?thesis
    by blast
qed

text \<open>
  The two gates answer before the query is read: a request with an empty query is
  answered 405 when its method is \<open>GET\<close>, and 403 when it is a \<open>POST\<close> from an
  address outside the list.
\<close>

theorem missing_query_parameter_counterexample:
  "\<not> is_query_string (req_query
       ((demo_request ''issue-create'')\<lparr>req_method := Some ''GET'', req_query := Map.empty\<rparr>)
       ''webhookId'') \<and>
   statusCode (snd (handler demo_world
     ((demo_request ''issue-create'')
        \<lparr>req_method := Some ''GET'', req_query := Map.empty\<rparr>))) = 405 \<and>
   statusCode (snd (handler demo_world
     ((demo_request ''issue-create'')
        \<lparr>x_vercel_forwarded_for := Some (HeaderString ''10.0.0.7''),
         req_query := Map.empty\<rparr>))) = 403"
  by (simp add: run_defs demo_defs)

subsection \<open>Bodies the schema does not know\<close>

text \<open>
  Claim C1, amended. A request that passed the method and address gates, whose query
  holds the three members as strings and whose body matches no schema, is answered with
  status 200, \<open>success = true\<close>, the message \<open>Event skipped.\<close> (with the full stop of
  the source) and a null error, and nothing is called.
\<close>

theorem unsupported_body_is_skipped:
  assumes "passes_gates env req"
      and "\<forall>k \<in> set QUERY_KEYS. is_query_string (req_query req k)"
      and "SCHEMA_safeParse env (req_body req) = None"
  shows "handler env req =
           ([], \<lparr>statusCode = 200, success = True, message = Some ''Event skipped.'',
                 error = ErrorNull\<rparr>)"
proof -
  from QUERY_SCHEMA_parse_ok [OF assms(2)] obtain c
    where "QUERY_SCHEMA_parse (req_query req) = Inr c" ..
  from handler_skipped [OF assms(1) this assms(3)] show ?thesis
    by (simp add: envelope_ok_def)
qed

theorem unsupported_body_is_skipped_witness:
  "handler demo_world (demo_request ''project-update'') =
     ([], \<lparr>statusCode = 200, success = True, message = Some ''Event skipped.'',
           error = ErrorNull\<rparr>)"
proof -
  have q: "\<forall>k \<in> set QUERY_KEYS. is_query_string (req_query (demo_request ''project-update'') k)"
    by (simp add: QUERY_KEYS_def demo_request_def demo_query_def)
  have s: "SCHEMA_safeParse demo_world (req_body (demo_request ''project-update'')) = None"
    by (simp add: demo_defs)
  from unsupported_body_is_skipped [OF demo_gates q s] show ?thesis .
qed

text \<open>
  The claim as stated fails at that request: the message sent is not
  \<open>Event skipped\<close>. And the same body is answered 405 in a \<open>GET\<close> request, and 400
  in a request with an empty query.
\<close>

theorem unsupported_body_message_counterexample:
  "SCHEMA_safeParse demo_world (req_body (demo_request ''project-update'')) = None \<and>
   message (snd (handler demo_world (demo_request ''project-update''))) \<noteq>
     Some ''Event skipped'' \<and>
   statusCode (snd (handler demo_world
     ((demo_request ''project-update'')\<lparr>req_method := Some ''GET''\<rparr>))) = 405 \<and>
   statusCode (snd (handler demo_world
     ((demo_request ''project-update'')\<lparr>req_query := Map.empty\<rparr>))) = 400"
  by (simp add: run_defs demo_defs)

subsection \<open>Failing lookups\<close>

lemma snd_and_then:
  "snd (and_then m f) = (case snd m of Inl e \<Rightarrow> Inl e | Inr x \<Rightarrow> snd (f x))"
  by (cases m) (simp add: and_then_def split: sum.splits prod.splits)

lemma snd_await_user:
  "snd (await_user env k i) =
     (case linear_user env k i of Rejects \<Rightarrow> Inl LinearFailure | Resolves u \<Rightarrow> Inr u)"
  by (simp add: await_user_def split: awaited.splits)

lemma snd_await_issue:
  "snd (await_issue env k i) =
     (case linear_issue env k i of Rejects \<Rightarrow> Inl LinearFailure | Resolves u \<Rightarrow> Inr u)"
  by (simp add: await_issue_def split: awaited.splits)

lemma snd_await_assignee:
  "snd (await_assignee i p) =
     (case p of Rejects \<Rightarrow> Inl LinearFailure | Resolves u \<Rightarrow> Inr u)"
  by (simp add: await_assignee_def split: awaited.splits)

lemma snd_from_result [simp]: "snd (from_result r) = r"
  by (simp add: from_result_def)

lemma snd_done_with [simp]: "snd (done_with x) = Inr x"
  by (simp add: done_with_def)

text \<open>A lookup of the recipe that rejects in the world ends the \<open>switch\<close> in an exception.\<close>

lemma switch_type_rejected:
  assumes "enrichment_rejects env k b"
  shows "\<exists>e. snd (switch_type env k b emb) = Inl e"
proof (cases "payload b")
  case (IssueData d uf)
  with assms show ?thesis
    by (auto simp add: enrichment_rejects_def switch_type_def recipe_issue_create_def
        recipe_issue_update_def snd_and_then snd_await_user
        split: sum.splits awaited.splits option.splits)
next
  case (CommentData d)
  with assms show ?thesis
    by (auto simp add: enrichment_rejects_def switch_type_def recipe_comment_create_def
        snd_and_then snd_await_user snd_await_issue snd_await_assignee
        split: sum.splits awaited.splits option.splits)
next
  case OtherData
  with assms show ?thesis
    by (simp add: enrichment_rejects_def)
qed

text \<open>
  Claim C3. For a request that passed the gates and the query check and whose body is an
  event with a recipe: when a lookup of that recipe rejects in the world (the acting
  user, the assignee of an issue, the parent issue of a comment, or the assignee of that
  parent issue), the response is status 500 with the error \<open>Something went wrong.\<close>,
  and the run holds no outbound dispatch.
\<close>

theorem rejected_lookup_is_500:
  assumes "passes_gates env req"
      and "req_query req ''webhookId'' = Some (QueryString wid)"
      and "req_query req ''webhookToken'' = Some (QueryString wtok)"
      and "req_query req ''linearToken'' = Some (QueryString ltok)"
      and "SCHEMA_safeParse env (req_body req) = Some b"
      and "enrichment_rejects env ltok b"
  shows "snd (handler env req) =
           \<lparr>statusCode = 500, success = False, message = None,
            error = ErrorString ''Something went wrong.''\<rparr> \<and>
         (\<forall>e \<in> set (fst (handler env req)). \<not> is_dispatch e)"
proof -
  let ?q = "\<lparr>webhookId = wid, webhookToken = wtok, linearToken = ltok\<rparr>"
  have q: "QUERY_SCHEMA_parse (req_query req) = Inr ?q"
    by (rule QUERY_SCHEMA_parse_strings [OF assms(2-4)])
  show ?thesis
  proof (cases "ltok = []")
    case True
    then have "linearToken ?q = []"
      by simp
    from handler_no_client [OF assms(1) q assms(5) this] show ?thesis
      by (simp add: generic_failure_def)
  next
    case False
    then have t: "linearToken ?q \<noteq> []"
      by simp
    obtain es r where sw: "switch_type env ltok b (empty_embed env b) = (es, r)"
      by (cases "switch_type env ltok b (empty_embed env b)")
    from switch_type_rejected [OF assms(6), of "empty_embed env b"] sw
    obtain e where r: "r = Inl e"
      by auto
    have "lookup_run (es, r)"
      using lookup_run_switch_type [of env ltok b "empty_embed env b"] sw by simp
    with r have "catch_block e = generic_failure" and "\<forall>x \<in> set es. \<not> is_dispatch x"
      by (auto simp add: lookup_run_def list_all_iff)
    with handler_event [OF assms(1) q assms(5) t] sw r show ?thesis
      by (simp add: generic_failure_def)
  qed
qed

theorem rejected_lookup_is_500_witness:
  "handler demo_world (demo_request ''issue-create-stranger'') =
     ([UserLookup ''user-nobody'' False],
      \<lparr>statusCode = 500, success = False, message = None,
       error = ErrorString ''Something went wrong.''\<rparr>) \<and>
   handler demo_world (demo_request ''issue-create-ghost-assignee'') =
     ([UserLookup ''user-ann'' True, UserLookup ''user-ghost'' False],
      \<lparr>statusCode = 500, success = False, message = None,
       error = ErrorString ''Something went wrong.''\<rparr>) \<and>
   handler demo_world (demo_request ''comment-create-orphan'') =
     ([UserLookup ''user-ann'' True, IssueLookup ''issue-404'' False],
      \<lparr>statusCode = 500, success = False, message = None,
       error = ErrorString ''Something went wrong.''\<rparr>) \<and>
   handler demo_world (demo_request ''comment-create-broken-assignee'') =
     ([UserLookup ''user-ann'' True, IssueLookup ''issue-2'' True,
       AssigneeLookup ''issue-2'' False],
      \<lparr>statusCode = 500, success = False, message = None,
       error = ErrorString ''Something went wrong.''\<rparr>)"
proof -
  have q: "req_query (demo_request j) ''webhookId'' = Some (QueryString ''1001'')"
    "req_query (demo_request j) ''webhookToken'' = Some (QueryString ''tok'')"
    "req_query (demo_request j) ''linearToken'' = Some (QueryString ''lin_api_key'')" for j
    by (simp_all add: demo_request_def demo_query_def)
  have s1: "SCHEMA_safeParse demo_world (req_body (demo_request ''issue-create-stranger'')) =
      Some (demo_event CREATE (IssueData (demo_issue\<lparr>creatorId := ''user-nobody''\<rparr>) None))"
    by (simp add: demo_request_def demo_world_def demo_schema_def)
  have r1: "enrichment_rejects demo_world ''lin_api_key''
      (demo_event CREATE (IssueData (demo_issue\<lparr>creatorId := ''user-nobody''\<rparr>) None))"
    by (simp add: enrichment_rejects_def demo_event_def demo_issue_def demo_world_def)
  have s2: "SCHEMA_safeParse demo_world (req_body (demo_request ''issue-create-ghost-assignee'')) =
      Some (demo_event CREATE
        (IssueData (demo_issue\<lparr>assignee := Some \<lparr>assignee_id = ''user-ghost''\<rparr>\<rparr>) None))"
    by (simp add: demo_request_def demo_world_def demo_schema_def)
  have r2: "enrichment_rejects demo_world ''lin_api_key''
      (demo_event CREATE
        (IssueData (demo_issue\<lparr>assignee := Some \<lparr>assignee_id = ''user-ghost''\<rparr>\<rparr>) None))"
    by (simp add: enrichment_rejects_def demo_event_def demo_issue_def demo_world_def)
  have s3: "SCHEMA_safeParse demo_world (req_body (demo_request ''comment-create-orphan'')) =
      Some (demo_event CREATE (CommentData (demo_comment
        \<lparr>issue := \<lparr>issue_id = ''issue-404'', issue_title = ''Gone''\<rparr>\<rparr>)))"
    by (simp add: demo_request_def demo_world_def demo_schema_def)
  have r3: "enrichment_rejects demo_world ''lin_api_key''
      (demo_event CREATE (CommentData (demo_comment
        \<lparr>issue := \<lparr>issue_id = ''issue-404'', issue_title = ''Gone''\<rparr>\<rparr>)))"
    by (simp add: enrichment_rejects_def demo_event_def demo_comment_def demo_world_def)
  have s4: "SCHEMA_safeParse demo_world (req_body (demo_request ''comment-create-broken-assignee'')) =
      Some (demo_event CREATE (CommentData (demo_comment
        \<lparr>issue := \<lparr>issue_id = ''issue-2'', issue_title = ''Flaky''\<rparr>\<rparr>)))"
    by (simp add: demo_request_def demo_world_def demo_schema_def)
  have r4: "enrichment_rejects demo_world ''lin_api_key''
      (demo_event CREATE (CommentData (demo_comment
        \<lparr>issue := \<lparr>issue_id = ''issue-2'', issue_title = ''Flaky''\<rparr>\<rparr>)))"
    by (simp add: enrichment_rejects_def demo_event_def demo_comment_def demo_world_def)
  have t: "fst (handler demo_world (demo_request ''issue-create-stranger'')) =
      [UserLookup ''user-nobody'' False]"
    "fst (handler demo_world (demo_request ''issue-create-ghost-assignee'')) =
      [UserLookup ''user-ann'' True, UserLookup ''user-ghost'' False]"
    "fst (handler demo_world (demo_request ''comment-create-orphan'')) =
      [UserLookup ''user-ann'' True, IssueLookup ''issue-404'' False]"
    "fst (handler demo_world (demo_request ''comment-create-broken-assignee'')) =
      [UserLookup ''user-ann'' True, IssueLookup ''issue-2'' True,
       AssigneeLookup ''issue-2'' False]"
    by (simp_all add: run_defs demo_defs)
  from rejected_lookup_is_500 [OF demo_gates q s1 r1]
    rejected_lookup_is_500 [OF demo_gates q s2 r2]
    rejected_lookup_is_500 [OF demo_gates q s3 r3]
    rejected_lookup_is_500 [OF demo_gates q s4 r4] t
  show ?thesis
    by (simp add: prod_eq_iff)
qed

subsection \<open>Events no recipe handles\<close>

lemma switch_type_no_recipe:
  "\<not> has_recipe b \<Longrightarrow> switch_type env k b emb = done_with (emb, None, None)"
  by (auto simp add: has_recipe_def switch_type_def split: event_data.splits)

lemma discord_message_nobody:
  "discord_message (emb, None, None) =
     \<lparr>content = None, username = ''Linear'',
      avatar_url = ''https://ldw.screfy.com/static/linear.png'', embeds = [emb]\<rparr>"
  by (simp add: discord_message_def discordUserId_def content_of_def WEBHOOK_USERNAME_def
      WEBHOOK_AVATAR_URL_def)

text \<open>An issue update whose \<open>updatedFrom\<close> has no \<open>stateId\<close> has no recipe.\<close>

lemma retitled_has_no_recipe:
  "action b = UPDATE \<Longrightarrow> payload b = IssueData d (Some \<lparr>stateId = None\<rparr>) \<Longrightarrow> \<not> has_recipe b"
  by (simp add: has_recipe_def status_changed_def)

text \<open>
  Claim C5, amended. For a request that passed the gates and the query check with a
  \<open>linearToken\<close> that is not empty, and whose body the schema accepts as an event no
  recipe handles, the handler makes exactly one outbound call, the dispatch: no mention,
  the fixed sender name and avatar, and one embed holding the brand colour (the integer
  6187730 that \<open>#5E6AD2\<close> resolves to) and what is posted for the event's timestamp,
  and nothing else. It responds with success when that call resolves, and with status
  500 and the generic error when it rejects.
\<close>

theorem unhandled_event_dispatches_empty_embed:
  assumes "passes_gates env req"
      and "req_query req ''webhookId'' = Some (QueryString wid)"
      and "req_query req ''webhookToken'' = Some (QueryString wtok)"
      and "req_query req ''linearToken'' = Some (QueryString ltok)"
      and "ltok \<noteq> []"
      and "SCHEMA_safeParse env (req_body req) = Some b"
      and "\<not> has_recipe b"
      and "u = ''https://discord.com/api/webhooks/'' @ wid @ ''/'' @ wtok"
      and "p = \<lparr>content = None, username = ''Linear'',
                avatar_url = ''https://ldw.screfy.com/static/linear.png'',
                embeds = [\<lparr>embed_color = 6187730,
                           embed_timestamp = posted_timestamp env (createdAt b),
                           embed_title = None, embed_url = None, embed_author = None,
                           embed_footer = None, embed_fields = [],
                           embed_description = None\<rparr>]\<rparr>"
  shows "fst (handler env req) = [Dispatch u p (fetch_resolves env u p)] \<and>
         (fetch_resolves env u p \<longrightarrow>
            snd (handler env req) =
              \<lparr>statusCode = 200, success = True, message = Some ''OK'', error = ErrorNull\<rparr>) \<and>
         (\<not> fetch_resolves env u p \<longrightarrow>
            snd (handler env req) =
              \<lparr>statusCode = 500, success = False, message = None,
               error = ErrorString ''Something went wrong.''\<rparr>)"
proof -
  let ?q = "\<lparr>webhookId = wid, webhookToken = wtok, linearToken = ltok\<rparr>"
  have q: "QUERY_SCHEMA_parse (req_query req) = Inr ?q"
    by (rule QUERY_SCHEMA_parse_strings [OF assms(2-4)])
  have t: "linearToken ?q \<noteq> []"
    using assms(5) by simp
  have sw: "switch_type env ltok b (empty_embed env b) =
      ([], Inr (empty_embed env b, None, None))"
    by (simp add: switch_type_no_recipe [OF assms(7)] done_with_def)
  from handler_event [OF assms(1) q assms(6) t]
  have "handler env req =
      ([Dispatch (DISCORD_WEBHOOKS_URL @ ''/'' @ wid @ ''/'' @ wtok)
          (discord_message (empty_embed env b, None, None))
          (fetch_resolves env (DISCORD_WEBHOOKS_URL @ ''/'' @ wid @ ''/'' @ wtok)
             (discord_message (empty_embed env b, None, None)))],
       if fetch_resolves env (DISCORD_WEBHOOKS_URL @ ''/'' @ wid @ ''/'' @ wtok)
            (discord_message (empty_embed env b, None, None))
       then envelope_ok ''OK'' else generic_failure)"
    by (simp add: sw)
  then show ?thesis
    by (simp add: assms(8,9) DISCORD_WEBHOOKS_URL_def discord_message_nobody empty_embed_def
        envelope_ok_def generic_failure_def)
qed

theorem unhandled_event_dispatches_empty_embed_witness:
  "handler demo_world (demo_request ''issue-retitled'') =
     ([Dispatch ''https://discord.com/api/webhooks/1001/tok''
         \<lparr>content = None, username = ''Linear'',
          avatar_url = ''https://ldw.screfy.com/static/linear.png'',
          embeds = [\<lparr>embed_color = 6187730,
                     embed_timestamp = IsoTime ''2022-03-01T10:00:00.000Z'',
                     embed_title = None, embed_url = None, embed_author = None,
                     embed_footer = None, embed_fields = [],
                     embed_description = None\<rparr>]\<rparr> True],
      \<lparr>statusCode = 200, success = True, message = Some ''OK'', error = ErrorNull\<rparr>)"
proof -
  let ?b = "demo_event UPDATE (IssueData demo_issue (Some \<lparr>stateId = None\<rparr>))"
  let ?r = "demo_request ''issue-retitled''"
  have q: "req_query ?r ''webhookId'' = Some (QueryString ''1001'')"
    "req_query ?r ''webhookToken'' = Some (QueryString ''tok'')"
    "req_query ?r ''linearToken'' = Some (QueryString ''lin_api_key'')"
    by (simp_all add: demo_request_def demo_query_def)
  have s: "SCHEMA_safeParse demo_world (req_body ?r) = Some ?b"
    by (simp add: demo_request_def demo_world_def demo_schema_def)
  have n: "\<not> has_recipe ?b"
    by (rule retitled_has_no_recipe [of _ demo_issue]) (simp_all add: demo_event_def)
  have f: "\<And>u p. fetch_resolves demo_world u p"
    by (simp add: demo_world_def)
  have c: "posted_timestamp demo_world (createdAt ?b) = IsoTime ''2022-03-01T10:00:00.000Z''"
    by (simp add: demo_event_def demo_world_def)
  have k: "''lin_api_key'' \<noteq> []"
    by simp
  from unhandled_event_dispatches_empty_embed [OF demo_gates q k s n refl refl] f c
  show ?thesis
    by (simp add: prod_eq_iff)
qed

text \<open>
  The claim as stated fails where the dispatch call rejects (the answer is 500, not a
  success), and where the same body comes in a \<open>GET\<close> request (405, and no dispatch),
  with an empty query (400, and no dispatch) or with an empty \<open>linearToken\<close> (500,
  and no dispatch).
\<close>

theorem unhandled_event_counterexample:
  "SCHEMA_safeParse demo_world (req_body (demo_request ''issue-retitled'')) =
     Some (demo_event UPDATE (IssueData demo_issue (Some \<lparr>stateId = None\<rparr>))) \<and>
   snd (handler (demo_world\<lparr>fetch_resolves := \<lambda>u p. False\<rparr>) (demo_request ''issue-retitled'')) =
     \<lparr>statusCode = 500, success = False, message = None,
      error = ErrorString ''Something went wrong.''\<rparr> \<and>
   handler demo_world ((demo_request ''issue-retitled'')\<lparr>req_method := Some ''GET''\<rparr>) =
     ([], \<lparr>statusCode = 405, success = False, message = None,
           error = ErrorString ''Method GET is not allowed.''\<rparr>) \<and>
   fst (handler demo_world ((demo_request ''issue-retitled'')\<lparr>req_query := Map.empty\<rparr>)) = [] \<and>
   statusCode (snd (handler demo_world
     ((demo_request ''issue-retitled'')\<lparr>req_query := Map.empty\<rparr>))) = 400 \<and>
   handler demo_world
     ((demo_request ''issue-retitled'')
        \<lparr>req_query := demo_query(''linearToken'' \<mapsto> QueryString [])\<rparr>) =
     ([], \<lparr>statusCode = 500, success = False, message = None,
           error = ErrorString ''Something went wrong.''\<rparr>)"
  by (simp add: run_defs demo_defs)

subsection \<open>\<open>parseIdentifier\<close>\<close>

lemma split_str_nonempty [simp]: "split_str c s \<noteq> []"
  by (induction s) (auto split: list.splits)

lemma split_str_no_sep: "c \<notin> set s \<Longrightarrow> split_str c s = [s]"
  by (induction s) auto

lemma split_str_append: "c \<notin> set s \<Longrightarrow> split_str c (s @ c # t) = s # split_str c t"
  by (induction s) auto

text \<open>
  \<open>split_str\<close> cuts a string into the pieces it is joined from: the pieces are free of
  the separator, they join back to the string, and they are the only such pieces.
\<close>

lemma split_str_join:
  "segs \<noteq> [] \<Longrightarrow> \<forall>s \<in> set segs. c \<notin> set s \<Longrightarrow> split_str c (join c segs) = segs"
  by (induction c segs rule: join.induct) (auto simp add: split_str_no_sep split_str_append)

lemma join_split_str: "join c (split_str c s) = s"
proof (induction s)
  case Nil
  show ?case by simp
next
  case (Cons x xs)
  obtain t ts where r: "split_str c xs = t # ts"
    by (cases "split_str c xs") simp_all
  with Cons show ?case
    by (cases ts) auto
qed

lemma split_str_sep_free: "seg \<in> set (split_str c s) \<Longrightarrow> c \<notin> set seg"
  by (induction s arbitrary: seg) (auto split: list.splits if_splits)

lemma hd_split_str: "hd (split_str c s) = takeWhile (\<lambda>x. x \<noteq> c) s"
  by (induction s) (auto split: list.splits)

lemma parseIdentifier_short:
  "length (split_str (CHR ''/'') u) < 6 \<Longrightarrow> parseIdentifier u = Inl TypeError"
  by (simp add: parseIdentifier_def Let_def)

lemma parseIdentifier_succeeds_iff:
  "(\<exists>i. parseIdentifier u = Inr i) \<longleftrightarrow> 6 \<le> length (split_str (CHR ''/'') u)"
  by (auto simp add: parseIdentifier_def Let_def)

text \<open>
  Claim C4. When a URL is made of at least six pieces joined by \<open>/\<close>, none of them
  holding a \<open>/\<close>, its parsed identifier is the sixth piece up to its first \<open>#\<close>,
  that sign and everything after it left out; so when the sixth piece is
  \<open>ENG-123#comment-1\<close> the identifier is \<open>ENG-123\<close>.
\<close>

theorem parseIdentifier_sixth_segment:
  assumes "join (CHR ''/'') segs = u"
      and "\<forall>s \<in> set segs. CHR ''/'' \<notin> set s"
      and "6 \<le> length segs"
  shows "parseIdentifier u = Inr (takeWhile (\<lambda>c. c \<noteq> CHR ''#'') (segs ! 5)) \<and>
         (segs ! 5 = ''ENG-123#comment-1'' \<longrightarrow> parseIdentifier u = Inr ''ENG-123'')"
proof -
  from assms(3) have "segs \<noteq> []"
    by auto
  from split_str_join [OF this assms(2)] assms(1) have "split_str (CHR ''/'') u = segs"
    by simp
  with assms(3) have p: "parseIdentifier u = Inr (takeWhile (\<lambda>c. c \<noteq> CHR ''#'') (segs ! 5))"
    by (simp add: parseIdentifier_def hd_split_str)
  then show ?thesis
    by simp
qed

theorem parseIdentifier_sixth_segment_witness:
  "parseIdentifier ''https://linear.app/issue/acme/ENG-123#comment-1'' = Inr ''ENG-123''"
proof -
  let ?segs = "[''https:'', [], ''linear.app'', ''issue'', ''acme'', ''ENG-123#comment-1'']"
  have j: "join (CHR ''/'') ?segs = ''https://linear.app/issue/acme/ENG-123#comment-1''"
    by simp
  have f: "\<forall>s \<in> set ?segs. CHR ''/'' \<notin> set s"
    by simp
  have l: "6 \<le> length ?segs"
    by simp
  from parseIdentifier_sixth_segment [OF j f l] show ?thesis
    by simp
qed

subsection \<open>URLs that are too short\<close>

lemma and_then_always_Inl:
  assumes "\<And>x. \<exists>e. snd (g x) = Inl e"
  shows "\<exists>e. snd (and_then m g) = Inl e"
proof (cases m)
  case (Pair es r)
  show ?thesis
  proof (cases r)
    case (Inl e)
    with Pair show ?thesis
      by (simp add: and_then_def)
  next
    case (Inr x)
    from assms [of x] obtain e where "snd (g x) = Inl e" ..
    with Pair Inr show ?thesis
      by (cases "g x") (simp add: and_then_def)
  qed
qed

lemma switch_type_short_url:
  assumes "has_recipe b" and "parseIdentifier (url b) = Inl e0"
  shows "\<exists>e. snd (switch_type env k b emb) = Inl e"
proof -
  have t: "\<And>g :: string \<Rightarrow> enriched run.
      \<exists>e. snd (and_then (from_result (parseIdentifier (url b))) g) = Inl e"
    by (simp add: assms(2) throw_def)
  have ic: "\<exists>e. snd (recipe_issue_create env k b d emb) = Inl e" for d
    unfolding recipe_issue_create_def by (rule and_then_always_Inl) (rule t)
  have iu: "\<exists>e. snd (recipe_issue_update env k b d emb) = Inl e" for d
    unfolding recipe_issue_update_def by (rule and_then_always_Inl) (rule t)
  have cc: "\<exists>e. snd (recipe_comment_create env k b d emb) = Inl e" for d
    unfolding recipe_comment_create_def
    by (rule and_then_always_Inl, rule and_then_always_Inl) (rule t)
  from assms(1) ic iu cc show ?thesis
    by (cases "payload b") (auto simp add: switch_type_def has_recipe_def)
qed

text \<open>
  Claim C10, amended. For an event a recipe handles (issue created, issue status
  changed, comment created), in a request that passed the gates and the query check,
  whose URL has fewer than six pieces between \<open>/\<close>: the identifier parse of that URL
  throws a \<open>TypeError\<close>, the handler makes no dispatch and answers with status 500 and
  the generic error. The parse is partial: it succeeds exactly when the URL has at
  least six pieces, deeper URLs included.
\<close>

theorem short_url_is_500:
  assumes "passes_gates env req"
      and "\<forall>k \<in> set QUERY_KEYS. is_query_string (req_query req k)"
      and "SCHEMA_safeParse env (req_body req) = Some b"
      and "has_recipe b"
      and "length (split_str (CHR ''/'') (url b)) < 6"
  shows "parseIdentifier (url b) = Inl TypeError \<and>
         snd (handler env req) =
           \<lparr>statusCode = 500, success = False, message = None,
            error = ErrorString ''Something went wrong.''\<rparr> \<and>
         (\<forall>e \<in> set (fst (handler env req)). \<not> is_dispatch e) \<and>
         (\<forall>u. (\<exists>i. parseIdentifier u = Inr i) \<longleftrightarrow> 6 \<le> length (split_str (CHR ''/'') u))"
proof -
  have pi: "parseIdentifier (url b) = Inl TypeError"
    by (rule parseIdentifier_short [OF assms(5)])
  from QUERY_SCHEMA_parse_ok [OF assms(2)] obtain q
    where q: "QUERY_SCHEMA_parse (req_query req) = Inr q" ..
  show ?thesis
  proof (cases "linearToken q = []")
    case True
    from handler_no_client [OF assms(1) q assms(3) True] pi parseIdentifier_succeeds_iff
    show ?thesis
      by (simp add: generic_failure_def)
  next
    case False
    obtain es r where sw: "switch_type env (linearToken q) b (empty_embed env b) = (es, r)"
      by (cases "switch_type env (linearToken q) b (empty_embed env b)")
    from switch_type_short_url [OF assms(4) pi, of env "linearToken q" "empty_embed env b"] sw
    obtain e where r: "r = Inl e"
      by auto
    have "lookup_run (es, r)"
      using lookup_run_switch_type [of env "linearToken q" b "empty_embed env b"] sw by simp
    with r have "catch_block e = generic_failure" and "\<forall>x \<in> set es. \<not> is_dispatch x"
      by (auto simp add: lookup_run_def list_all_iff)
    with handler_event [OF assms(1) q assms(3) False] sw r pi parseIdentifier_succeeds_iff
    show ?thesis
      by (simp add: generic_failure_def)
  qed
qed

theorem short_url_is_500_witness:
  "parseIdentifier ''https://linear.app/ENG-123'' = Inl TypeError \<and>
   handler demo_world (demo_request ''issue-create-short-url'') =
     ([UserLookup ''user-ann'' True],
      \<lparr>statusCode = 500, success = False, message = None,
       error = ErrorString ''Something went wrong.''\<rparr>)"
proof -
  let ?r = "demo_request ''issue-create-short-url''"
  let ?b = "(demo_event CREATE (IssueData demo_issue None))
              \<lparr>url := ''https://linear.app/ENG-123''\<rparr>"
  have q: "\<forall>k \<in> set QUERY_KEYS. is_query_string (req_query ?r k)"
    by (simp add: QUERY_KEYS_def demo_request_def demo_query_def)
  have s: "SCHEMA_safeParse demo_world (req_body ?r) = Some ?b"
    by (simp add: demo_request_def demo_world_def demo_schema_def)
  have h: "has_recipe ?b"
    by (simp add: has_recipe_def demo_event_def)
  have l: "length (split_str (CHR ''/'') (url ?b)) < 6"
    by (simp add: demo_event_def)
  have t: "fst (handler demo_world ?r) = [UserLookup ''user-ann'' True]"
    by (simp add: run_defs demo_defs)
  from short_url_is_500 [OF demo_gates q s h l] t show ?thesis
    by (simp add: prod_eq_iff)
qed

text \<open>
  The parse does not ask for an exact depth: a URL of six pieces and a URL of seven
  pieces both parse, and the issue event with the seven-piece URL is dispatched.
\<close>

theorem exact_depth_counterexample:
  "length (split_str (CHR ''/'') ''https://linear.app/issue/acme/ENG-123#comment-1'') = 6 \<and>
   parseIdentifier ''https://linear.app/issue/acme/ENG-123#comment-1'' = Inr ''ENG-123'' \<and>
   length (split_str (CHR ''/'') ''https://linear.app/acme/issue/ENG-123/fix-login'') = 7 \<and>
   parseIdentifier ''https://linear.app/acme/issue/ENG-123/fix-login'' = Inr ''ENG-123'' \<and>
   snd (handler demo_world (demo_request ''issue-create'')) =
     \<lparr>statusCode = 200, success = True, message = Some ''OK'', error = ErrorNull\<rparr>"
  by (simp add: run_defs demo_defs)

subsection \<open>The comment recipe\<close>






subsection \<open>Mention resolution\<close>

lemma table_values_truthy:
  "map_of LINEAR_DISPLAY_NAME_TO_DISCORD_ID k = Some v \<Longrightarrow> v \<noteq> []"
  by (auto simp add: LINEAR_DISPLAY_NAME_TO_DISCORD_ID_def split: if_splits)

text \<open>
  For a display name that \<open>Object.prototype\<close> does not know, the content is the
  mention of the table's entry when there is one, and absent otherwise.
\<close>

lemma content_outside_prototype:
  assumes "k \<notin> set (''constructor'' # ''__proto__'' # OBJECT_PROTOTYPE_FUNCTIONS)"
  shows "content_of (get_property LINEAR_DISPLAY_NAME_TO_DISCORD_ID k) =
           (case map_of LINEAR_DISPLAY_NAME_TO_DISCORD_ID k of
              None \<Rightarrow> None
            | Some v \<Rightarrow> Some (MENTION_GREETING @ '' <@'' @ v @ ''>''))"
  using assms table_values_truthy [of k]
  by (auto simp add: content_of_def get_property_def split: option.splits)

lemma mention_outside_prototype:
  assumes "\<forall>a. asg = Some a \<longrightarrow>
             displayName a \<notin> set (''constructor'' # ''__proto__'' # OBJECT_PROTOTYPE_FUNCTIONS)"
  shows "content (discord_message (emb, asg, actionUser)) =
           (case asg of
              None \<Rightarrow> None
            | Some a \<Rightarrow>
                (case actionUser of
                   None \<Rightarrow> None
                 | Some u \<Rightarrow>
                     if user_id a \<noteq> user_id u
                     then (case map_of LINEAR_DISPLAY_NAME_TO_DISCORD_ID (displayName a) of
                             None \<Rightarrow> None
                           | Some v \<Rightarrow> Some (MENTION_GREETING @ '' <@'' @ v @ ''>''))
                     else None))"
proof (cases asg)
  case None
  then show ?thesis
    by (simp add: discord_message_def discordUserId_def content_of_def)
next
  case (Some a)
  with assms have "displayName a \<notin>
      set (''constructor'' # ''__proto__'' # OBJECT_PROTOTYPE_FUNCTIONS)"
    by simp
  then have c: "content_of (get_property LINEAR_DISPLAY_NAME_TO_DISCORD_ID (displayName a)) =
      (case map_of LINEAR_DISPLAY_NAME_TO_DISCORD_ID (displayName a) of
         None \<Rightarrow> None
       | Some v \<Rightarrow> Some (MENTION_GREETING @ '' <@'' @ v @ ''>''))"
    by (rule content_outside_prototype)
  have n: "content_of Undefined = None"
    by (simp add: content_of_def)
  from Some show ?thesis
    by (cases actionUser) (simp_all add: discord_message_def discordUserId_def c n)
qed

lemma no_mention_without_two_people:
  "asg = None \<or> actionUser = None \<or> map_option user_id asg = map_option user_id actionUser \<Longrightarrow>
   content (discord_message (emb, asg, actionUser)) = None"
  by (auto simp add: discord_message_def discordUserId_def content_of_def split: option.splits)

text \<open>
  Claim C2 fails on the code at an assignee whose display name is \<open>constructor\<close>:
  the name is no key of the table, yet the property read finds the inherited
  \<open>Object.prototype.constructor\<close>, which is truthy, and the dispatched content is
  built from that function's text.
\<close>

theorem constructor_display_name_gets_content:
  "map_of LINEAR_DISPLAY_NAME_TO_DISCORD_ID ''constructor'' = None \<and>
   (\<exists>u p ok. fst (handler demo_world (demo_request ''issue-create-constructor'')) =
      [UserLookup ''user-ann'' True, UserLookup ''user-ctor'' True, Dispatch u p ok] \<and>
      content p = Some (MENTION_GREETING @ '' <@function Object() { [native code] }>''))"
  by (auto simp add: run_defs demo_defs LINEAR_DISPLAY_NAME_TO_DISCORD_ID_def)

end
